theory Spec2Isabelle
  imports Main "HOL-Library.Word" "HOL-Library.AList"
begin

section \<open>Shared data model\<close>

text \<open>
  The embedding follows the Go sources of the committee election
  (\<^verbatim>\<open>consensus/election/election.go\<close>), the fruit pool (\<^verbatim>\<open>core/snail_pool.go\<close>) and the
  snail sealer (\<^verbatim>\<open>mineSnail\<close>).  A \<^verbatim>\<open>*big.Int\<close> is an \<^typ>\<open>int\<close>, a \<^verbatim>\<open>uint64\<close> a
  \<^typ>\<open>64 word\<close>, a \<^verbatim>\<open>common.Hash\<close> a \<^typ>\<open>256 word\<close> (its \<^verbatim>\<open>Big()\<close> is \<^const>\<open>uint\<close>), a byte
  slice a list of \<^typ>\<open>8 word\<close>.  A run-time panic of the Go code is a value \<open>Inl p\<close>.
\<close>

type_synonym hash = "256 word"
type_synonym address = "160 word"
type_synonym bytes = "8 word list"

datatype panic = NilDereference | IndexOutOfRange | DivisionByZero

record SnailHeader =
  ParentHash :: hash
  Number :: int
  Difficulty :: int
  FruitDifficulty :: int
  FastNumber :: int
  FastHash :: hash
  Nonce :: "64 word"
  MixDigest :: hash
  SignHash :: hash
  Fruit :: bool
  ToElect :: bool
  Coinbase :: address
  Publickey :: bytes

text \<open>
  A snail block is a header, an optional body of fruits (themselves snail blocks) and the
  BFT signatures.  \<open>Fruits b = None\<close> is Go's \<^verbatim>\<open>nil\<close> slice, which \<^verbatim>\<open>len\<close> and \<^verbatim>\<open>range\<close> treat
  as empty but \<^verbatim>\<open>!= nil\<close> tells apart.
\<close>

datatype SnailBlock =
  SnailBlock (Header: SnailHeader) (Fruits: "SnailBlock list option") (Signs: "bytes list")

definition FruitsList :: "SnailBlock \<Rightarrow> SnailBlock list" where
  "FruitsList b = (case Fruits b of None \<Rightarrow> [] | Some fs \<Rightarrow> fs)"

text \<open>\<^verbatim>\<open>(*big.Int).Uint64\<close>: the low 64 bits of the absolute value.\<close>

definition Uint64 :: "int \<Rightarrow> 64 word" where
  "Uint64 x = word_of_int \<bar>x\<bar>"

text \<open>\<^verbatim>\<open>(*big.Int).Div\<close>: Euclidean division, a panic on a zero divisor.\<close>

definition big_Div :: "int \<Rightarrow> int \<Rightarrow> panic + int" where
  "big_Div x y =
     (if y = 0 then Inl DivisionByZero
      else Inr (if 0 < y then x div y else - (x div (- y))))"

section \<open>Election: configuration and chain access\<close>

text \<open>
  The constants of package \<^verbatim>\<open>params\<close> that the election reads are not part of the sources
  at hand; they are parameters of the model.
\<close>

record params =
  ElectionPeriodNumber :: int
  SnailConfirmInterval :: int
  ElectionSwitchoverNumber :: int
  MinimumCommitteeNumber :: nat
  MaximumCommitteeNumber :: int
  ElectionFruitsThreshold :: "64 word"

text \<open>\<^verbatim>\<open>SnailBlockChain.GetBlockByNumber\<close>: a missing block is \<^verbatim>\<open>nil\<close>.\<close>

type_synonym snailchain = "64 word \<Rightarrow> SnailBlock option"

text \<open>
  \<^verbatim>\<open>getLastNumber\<close>: \<^verbatim>\<open>nil\<close> when either block of the window is missing; otherwise the fast
  number of the last fruit of the end block plus the switchover number.  The index
  \<^verbatim>\<open>fruits[len(fruits)-1]\<close> is out of range on an empty fruit list.
\<close>

definition getLastNumber :: "params \<Rightarrow> snailchain \<Rightarrow> int \<Rightarrow> int \<Rightarrow> panic + int option" where
  "getLastNumber P chain beginSnail endSnail =
     (case chain (Uint64 beginSnail) of
        None \<Rightarrow> Inr None
      | Some beginElectionBlock \<Rightarrow>
          (case chain (Uint64 endSnail) of
             None \<Rightarrow> Inr None
           | Some endElectionBlock \<Rightarrow>
               (let fruits = FruitsList endElectionBlock in
                if fruits = [] then Inl IndexOutOfRange
                else Inr (Some (FastNumber (Header (last fruits)) + ElectionSwitchoverNumber P)))))"

section \<open>Election: committee data\<close>

text \<open>
  Modelled from the spec: the flag and member-type constants of package \<^verbatim>\<open>types\<close>
  (\<^verbatim>\<open>StateUnusedFlag\<close>, \<^verbatim>\<open>StateUsedFlag\<close>, \<^verbatim>\<open>StateRemovedFlag\<close>, \<^verbatim>\<open>StateAppendFlag\<close>; \<^verbatim>\<open>TypeFixed\<close>,
  \<^verbatim>\<open>TypeWorked\<close>, \<^verbatim>\<open>TypeBack\<close>) are \<^verbatim>\<open>int32\<close> constants declared outside the sources at hand.
  They are pairwise distinct values; \<open>OtherFlag\<close> stands for every other \<^verbatim>\<open>int32\<close> a
  switch entry may carry, \<open>TypeUnset\<close> for a member type that was never assigned.
\<close>

datatype flag = StateUnusedFlag | StateUsedFlag | StateRemovedFlag | StateAppendFlag
  | OtherFlag "32 word"

datatype mtype = TypeUnset | TypeFixed | TypeWorked | TypeBack

text \<open>
  A public key is identified with its serialisation \<^verbatim>\<open>crypto.FromECDSAPub\<close>, the byte
  string all comparisons of the election go through.
\<close>

record CommitteeMember =
  MCoinbase :: address
  MPublickey :: bytes
  Flag :: flag
  MType :: mtype

record candidateMember =
  coinbase :: address
  address :: address
  publickey :: bytes
  difficulty :: int
  upper :: int
  lower :: int

record committee =
  id' :: int
  beginFastNumber :: int
  endFastNumber :: "int option"
  firstElectionNumber :: int
  lastElectionNumber :: int
  switchCheckNumber :: int
  members :: "CommitteeMember list"
  backupMembers :: "CommitteeMember list"
  switches :: "64 word list"

record ElectionCommittee =
  Members :: "CommitteeMember list"
  Backups :: "CommitteeMember list"

record SwitchEnter =
  Pk :: bytes
  SFlag :: flag

record SwitchInfos =
  CID :: "64 word"
  Vals :: "SwitchEnter list"

text \<open>A fast block, as far as the election reads it.\<close>

record Block =
  BNumber :: int
  BHash :: hash
  BSwitchInfos :: SwitchInfos

type_synonym fastchain = "64 word \<Rightarrow> Block option"

text \<open>
  What the election reads from its collaborators: both chains, their head numbers, the
  lookup of the snail block of a fast hash, and the functions of packages \<^verbatim>\<open>crypto\<close>,
  \<^verbatim>\<open>types\<close> and the consensus engine.  None of them is in the sources at hand; they are
  parameters.
\<close>

record env =
  snail :: snailchain
  fast :: fastchain
  fastHeadNumber :: int
  snailHeadNumber :: int
  GetFruitByFastHash :: "hash \<Rightarrow> SnailBlock option"
  BlockHash :: "SnailHeader \<Rightarrow> hash"
  Keccak256Hash :: "bytes \<Rightarrow> hash"
  PubkeyToAddress :: "bytes \<Rightarrow> address"
  GetPubKey :: "SnailHeader \<Rightarrow> bytes option"
  GetDifficulty :: "SnailHeader \<Rightarrow> int \<times> int"

datatype ElectMode = ElectModeEtrue | ElectModeFake

text \<open>
  The election object.  The LRU cache and the two tables of \<^verbatim>\<open>rawdb\<close> are maps from the
  committee id; \<^verbatim>\<open>ReadCommitteeStates\<close> of an id never written is the empty list.
\<close>

record Election =
  genesisCommittee :: "CommitteeMember list"
  defaultMembers :: "CommitteeMember list"
  commiteeCache :: "64 word \<Rightarrow> ElectionCommittee option"
  committeeDB :: "64 word \<Rightarrow> ElectionCommittee option"
  committeeStates :: "64 word \<Rightarrow> 64 word list"
  electionMode :: ElectMode
  committee :: "committee option"
  nextCommittee :: "committee option"
  startSwitchover :: bool

definition bindP :: "panic + 'a \<Rightarrow> ('a \<Rightarrow> panic + 'b) \<Rightarrow> panic + 'b" where
  "bindP m f = (case m of Inl p \<Rightarrow> Inl p | Inr x \<Rightarrow> f x)"

text \<open>The variable \<^verbatim>\<open>maxUint256\<close> of the election is \<open>2 ^ 256\<close>, whatever its comment says.\<close>

definition maxUint256 :: int where
  "maxUint256 = 2 ^ 256"

text \<open>
  \<^verbatim>\<open>(*big.Int).Bytes\<close>: the absolute value, big-endian, without leading zero bytes.
\<close>

function be_bytes :: "int \<Rightarrow> bytes" where
  "be_bytes n = (if n \<le> 0 then [] else be_bytes (n div 256) @ [word_of_int (n mod 256)])"
  by pat_completeness auto
termination
proof (relation "measure nat")
  show "wf (measure nat)" by simp
next
  fix n :: int
  assume pos: "\<not> n \<le> 0"
  then have "n div 256 < n" by (simp add: int_div_less_self)
  with pos show "(n div 256, n) \<in> measure nat" by simp
qed

declare be_bytes.simps [simp del]

definition big_Bytes :: "int \<Rightarrow> bytes" where
  "big_Bytes x = be_bytes \<bar>x\<bar>"

text \<open>\<^verbatim>\<open>common.Hash.Bytes\<close>: the 32 bytes, most significant first.\<close>

definition hash_Bytes :: "hash \<Rightarrow> bytes" where
  "hash_Bytes h = map (\<lambda>i. ucast (drop_bit (8 * (31 - i)) h)) [0..<32]"

section \<open>Election: candidates\<close>

text \<open>
  The fruit loop of \<^verbatim>\<open>getCandinates\<close>: a fruit that wants to be elected and whose public
  key is valid adds one candidate and counts for its address.
\<close>

fun collectFruits ::
  "env \<Rightarrow> SnailBlock list \<Rightarrow> candidateMember list \<times> (address \<Rightarrow> 64 word option)
     \<Rightarrow> candidateMember list \<times> (address \<Rightarrow> 64 word option)" where
  "collectFruits E [] st = st"
| "collectFruits E (f # fs) (mems, fruitsCount) =
     (if ToElect (Header f) then
        (case GetPubKey E (Header f) of
           None \<Rightarrow> collectFruits E fs (mems, fruitsCount)
         | Some pubkey \<Rightarrow>
             (let addr = PubkeyToAddress E pubkey;
                  (act, diff) = GetDifficulty E (Header f);
                  member = \<lparr> coinbase = Coinbase (Header f), address = addr, publickey = pubkey,
                             difficulty = act - diff, upper = 0, lower = 0 \<rparr>
              in collectFruits E fs
                   (mems @ [member],
                    fruitsCount(addr \<mapsto> (case fruitsCount addr of Some c \<Rightarrow> c + 1 | None \<Rightarrow> 1)))))
      else collectFruits E fs (mems, fruitsCount))"

text \<open>The block loop: \<open>None\<close> is the early return on a missing block.\<close>

function collectBlocks ::
  "env \<Rightarrow> int \<Rightarrow> int \<Rightarrow> bytes \<times> candidateMember list \<times> (address \<Rightarrow> 64 word option)
     \<Rightarrow> (bytes \<times> candidateMember list \<times> (address \<Rightarrow> 64 word option)) option" where
  "collectBlocks E blockNumber snailEndNumber (seed, st) =
     (if blockNumber \<le> snailEndNumber then
        (case snail E (Uint64 blockNumber) of
           None \<Rightarrow> None
         | Some block \<Rightarrow>
             collectBlocks E (blockNumber + 1) snailEndNumber
               (seed @ hash_Bytes (BlockHash E (Header block)),
                collectFruits E (FruitsList block) st))
      else Some (seed, st))"
  by pat_completeness auto
termination
  by (relation "measure (\<lambda>(E, b, e, s). nat (e + 1 - b))") auto

declare collectBlocks.simps [simp del]

text \<open>The lottery ranges: \<open>[rate * dd, rate * dd')\<close>, the last one closed at \<open>2 ^ 256\<close>.\<close>

fun assignRanges :: "int \<Rightarrow> int \<Rightarrow> candidateMember list \<Rightarrow> candidateMember list" where
  "assignRanges rate dd [] = []"
| "assignRanges rate dd (m # rest) =
     m \<lparr> lower := rate * dd,
         upper := (if rest = [] then maxUint256 else rate * (dd + difficulty m)) \<rparr>
     # assignRanges rate (dd + difficulty m) rest"

definition getCandinates ::
  "params \<Rightarrow> env \<Rightarrow> int \<Rightarrow> int \<Rightarrow> panic + (hash \<times> candidateMember list option)" where
  "getCandinates P E snailBeginNumber snailEndNumber =
     (case collectBlocks E snailBeginNumber snailEndNumber ([], [], Map.empty) of
        None \<Rightarrow> Inr (0, None)
      | Some (seed, mems, fruitsCount) \<Rightarrow>
          (let candidates =
                 filter (\<lambda>member. case fruitsCount (address member) of
                                     Some cnt \<Rightarrow> ElectionFruitsThreshold P \<le> cnt
                                   | None \<Rightarrow> False) mems;
               td = sum_list (map difficulty candidates)
           in if candidates = [] then Inr (0, None)
              else bindP (big_Div maxUint256 td)
                     (\<lambda>rate. Inr (Keccak256Hash E seed, Some (assignRanges rate 0 candidates)))))"

section \<open>Election: the lottery\<close>

text \<open>
  One round of \<^verbatim>\<open>elect\<close>: the first candidate whose range holds \<open>prop\<close> is drawn unless it
  is a default member or was drawn before; either way the round ends there.
\<close>

fun electRound ::
  "address list \<Rightarrow> int \<Rightarrow> candidateMember list \<Rightarrow> address list \<times> CommitteeMember list
     \<Rightarrow> address list \<times> CommitteeMember list" where
  "electRound defaults prop [] st = st"
| "electRound defaults prop (cm # cms) (addrs, ms) =
     (if prop < lower cm then electRound defaults prop cms (addrs, ms)
      else if upper cm \<le> prop then electRound defaults prop cms (addrs, ms)
      else if address cm \<in> set defaults then (addrs, ms)
      else if address cm \<in> set addrs then (addrs, ms)
      else (addrs @ [address cm],
            ms @ [\<lparr> MCoinbase = coinbase cm, MPublickey = publickey cm,
                    Flag = StateUnusedFlag, MType = TypeUnset \<rparr>]))"

function electLoop ::
  "params \<Rightarrow> env \<Rightarrow> address list \<Rightarrow> candidateMember list \<Rightarrow> hash \<Rightarrow> int
     \<Rightarrow> address list \<times> CommitteeMember list \<Rightarrow> CommitteeMember list" where
  "electLoop P E defaults candidates seed rnd st =
     (let seedNumber = uint seed + rnd;
          prop = uint (Keccak256Hash E (big_Bytes seedNumber));
          st' = electRound defaults prop candidates st
      in if MaximumCommitteeNumber P < rnd + 1 then snd st'
         else electLoop P E defaults candidates seed (rnd + 1) st')"
  by pat_completeness auto
termination
  by (relation "measure (\<lambda>(P, E, d, c, s, rnd, st). nat (MaximumCommitteeNumber P - rnd))")
     auto

declare electLoop.simps [simp del]

definition elect ::
  "params \<Rightarrow> env \<Rightarrow> Election \<Rightarrow> candidateMember list \<Rightarrow> hash \<Rightarrow> CommitteeMember list" where
  "elect P E e candidates seed =
     electLoop P E (map (\<lambda>g. PubkeyToAddress E (MPublickey g)) (defaultMembers e))
       candidates seed 1 ([], [])"

text \<open>
  \<^verbatim>\<open>electCommittee\<close>.  \<open>drawn\<close> is the list \<^verbatim>\<open>elect\<close> returned, empty when there were no
  candidates.  \<^verbatim>\<open>MinimumCommitteeNumber\<close> is a constant used as a slice bound, hence not
  negative.
\<close>

definition drawnMembers :: "params \<Rightarrow> env \<Rightarrow> Election \<Rightarrow> int \<Rightarrow> int \<Rightarrow> panic + CommitteeMember list" where
  "drawnMembers P E e snailBeginNumber snailEndNumber =
     bindP (getCandinates P E snailBeginNumber snailEndNumber)
       (\<lambda>(seed, candidates).
          case candidates of
            None \<Rightarrow> Inr []
          | Some cs \<Rightarrow> Inr (elect P E e cs seed))"

definition splitCommittee :: "params \<Rightarrow> Election \<Rightarrow> CommitteeMember list \<Rightarrow> ElectionCommittee" where
  "splitCommittee P e drawn =
     (let c = (if MinimumCommitteeNumber P < length drawn
               then \<lparr> Members = take (MinimumCommitteeNumber P) drawn,
                      Backups = drop (MinimumCommitteeNumber P) drawn \<rparr>
               else \<lparr> Members = drawn, Backups = [] \<rparr>);
          c = c \<lparr> Members := map (\<lambda>member. member \<lparr> Flag := StateUsedFlag, MType := TypeWorked \<rparr>)
                                (Members c) \<rparr>;
          c = c \<lparr> Backups := map (\<lambda>member. member \<lparr> MType := TypeBack \<rparr>) (Backups c) \<rparr>
      in if 4 \<le> length (Members c)
         then c \<lparr> Backups := Backups c @ defaultMembers e \<rparr>
         else c \<lparr> Members := genesisCommittee e \<rparr>)"

definition electCommittee ::
  "params \<Rightarrow> env \<Rightarrow> Election \<Rightarrow> int \<Rightarrow> int \<Rightarrow> panic + ElectionCommittee" where
  "electCommittee P E e snailBeginNumber snailEndNumber =
     bindP (drawnMembers P E e snailBeginNumber snailEndNumber)
       (\<lambda>drawn. Inr (splitCommittee P e drawn))"

section \<open>Election: locating a committee\<close>

text \<open>
  \<^verbatim>\<open>getElectionMembers\<close>: the committee id of the window, then the cache, then the stored
  committee, then a fresh election that is written to both.
\<close>

definition getElectionMembers ::
  "params \<Rightarrow> env \<Rightarrow> Election \<Rightarrow> int \<Rightarrow> int \<Rightarrow> panic + (ElectionCommittee \<times> Election)" where
  "getElectionMembers P E e snailBeginNumber snailEndNumber =
     bindP (big_Div (snailEndNumber + SnailConfirmInterval P) (ElectionPeriodNumber P))
       (\<lambda>q. let committeeNum =
                   (if snailEndNumber + SnailConfirmInterval P < ElectionPeriodNumber P then 0 else q);
                 key = Uint64 committeeNum
             in case commiteeCache e key of
                  Some cached \<Rightarrow> Inr (cached, e)
                | None \<Rightarrow>
                    (case committeeDB e key of
                       Some stored \<Rightarrow>
                         Inr (stored, e \<lparr> commiteeCache := (commiteeCache e)(key \<mapsto> stored) \<rparr>)
                     | None \<Rightarrow>
                         bindP (electCommittee P E e snailBeginNumber snailEndNumber)
                           (\<lambda>elected.
                              Inr (elected,
                                   e \<lparr> commiteeCache := (commiteeCache e)(key \<mapsto> elected),
                                       committeeDB := (committeeDB e)(key \<mapsto> elected) \<rparr>))))"

definition genesisAt :: "params \<Rightarrow> Election \<Rightarrow> int \<Rightarrow> committee" where
  "genesisAt P e endFast =
     \<lparr> id' = 0, beginFastNumber = 1, endFastNumber = Some endFast, firstElectionNumber = 0,
       lastElectionNumber = 0, switchCheckNumber = ElectionPeriodNumber P,
       members = genesisCommittee e, backupMembers = [], switches = committeeStates e 0 \<rparr>"

definition clampBegin :: "int \<Rightarrow> int" where
  "clampBegin beginElectionNumber = (if beginElectionNumber \<le> 0 then 1 else beginElectionNumber)"

text \<open>
  \<^verbatim>\<open>getCommittee\<close>: the committee that proposes fast block \<open>fastNumber\<close>, found from the
  snail height \<open>snailNumber\<close>.  \<open>Inr (None, e)\<close> is the \<^verbatim>\<open>nil\<close> return.
\<close>

definition getCommittee ::
  "params \<Rightarrow> env \<Rightarrow> Election \<Rightarrow> int \<Rightarrow> int \<Rightarrow> panic + (committee option \<times> Election)" where
  "getCommittee P E e fastNumber snailNumber =
     bindP (big_Div snailNumber (ElectionPeriodNumber P))
       (\<lambda>committeeNumber.
          let lastSnailNumber = committeeNumber * ElectionPeriodNumber P;
              switchCheck = lastSnailNumber - SnailConfirmInterval P
          in if committeeNumber = 0 then Inr (Some (genesisAt P e 0), e)
             else
               let endElectionNumber = switchCheck;
                   beginElectionNumber = clampBegin (endElectionNumber - ElectionPeriodNumber P + 1)
               in bindP (getLastNumber P (snail E) beginElectionNumber endElectionNumber)
                    (\<lambda>r. case r of
                            None \<Rightarrow> Inr (None, e)
                          | Some lastFastNumber \<Rightarrow>
                              if fastNumber \<le> lastFastNumber then
                                if committeeNumber = 1 then Inr (Some (genesisAt P e lastFastNumber), e)
                                else
                                  let preEndElectionNumber = switchCheck - ElectionPeriodNumber P;
                                      preBeginElectionNumber =
                                        clampBegin (preEndElectionNumber - ElectionPeriodNumber P + 1)
                                  in bindP (getLastNumber P (snail E) preBeginElectionNumber
                                              preEndElectionNumber)
                                       (\<lambda>r'. case r' of
                                                None \<Rightarrow> Inr (None, e)
                                              | Some preEndFast \<Rightarrow>
                                                  bindP (getElectionMembers P E e preBeginElectionNumber
                                                           preEndElectionNumber)
                                                    (\<lambda>(ms, e').
                                                       Inr (Some
                                                         \<lparr> id' = committeeNumber - 1,
                                                           beginFastNumber = preEndFast + 1,
                                                           endFastNumber = Some lastFastNumber,
                                                           firstElectionNumber = preBeginElectionNumber,
                                                           lastElectionNumber = preEndElectionNumber,
                                                           switchCheckNumber = lastSnailNumber,
                                                           members = Members ms,
                                                           backupMembers = Backups ms,
                                                           switches = committeeStates e'
                                                             (Uint64 (committeeNumber - 1)) \<rparr>, e')))
                              else
                                bindP (getElectionMembers P E e beginElectionNumber endElectionNumber)
                                  (\<lambda>(ms, e').
                                     Inr (Some
                                       \<lparr> id' = committeeNumber,
                                         beginFastNumber = lastFastNumber + 1,
                                         endFastNumber = Some 0,
                                         firstElectionNumber = beginElectionNumber,
                                         lastElectionNumber = endElectionNumber,
                                         switchCheckNumber = lastSnailNumber + ElectionPeriodNumber P,
                                         members = Members ms,
                                         backupMembers = Backups ms,
                                         switches = committeeStates e' (Uint64 committeeNumber) \<rparr>,
                                       e'))))"

text \<open>\<^verbatim>\<open>electedCommittee\<close>: the next committee, the current one, or a historical one.\<close>

definition electedCommittee ::
  "params \<Rightarrow> env \<Rightarrow> Election \<Rightarrow> int \<Rightarrow> panic + (committee option \<times> Election)" where
  "electedCommittee P E e fastNumber =
     (if electionMode e = ElectModeFake then Inr (committee e, e)
      else if (case nextCommittee e of
                 Some nxt \<Rightarrow> beginFastNumber nxt \<le> fastNumber | None \<Rightarrow> False)
      then Inr (nextCommittee e, e)
      else if (case committee e of
                 Some cur \<Rightarrow> beginFastNumber cur \<le> fastNumber | None \<Rightarrow> False)
      then Inr (committee e, e)
      else
        (case fast E (Uint64 fastNumber) of
           None \<Rightarrow> Inr (None, e)
         | Some fastBlock \<Rightarrow>
             (let snailNumber =
                    (case GetFruitByFastHash E (BHash fastBlock) of
                       None \<Rightarrow> snailHeadNumber E
                     | Some snailBlock \<Rightarrow> Number (Header snailBlock))
              in getCommittee P E e fastNumber snailNumber)))"

section \<open>Election: switch infos\<close>

text \<open>One entry of a switch info updates the state map under the key of its public key.\<close>

definition applySwitch :: "SwitchEnter \<Rightarrow> (bytes \<Rightarrow> flag option) \<Rightarrow> (bytes \<Rightarrow> flag option)" where
  "applySwitch s states =
     (case SFlag s of
        StateAppendFlag \<Rightarrow> states(Pk s \<mapsto> StateAppendFlag)
      | StateRemovedFlag \<Rightarrow> states(Pk s \<mapsto> StateRemovedFlag)
      | _ \<Rightarrow> states)"

text \<open>
  Replaying all switch blocks; a block that the fast chain does not hold is a \<^verbatim>\<open>nil\<close>
  pointer whose \<^verbatim>\<open>SwitchInfos\<close> is read.
\<close>

fun replayAll ::
  "fastchain \<Rightarrow> 64 word list \<Rightarrow> (bytes \<Rightarrow> flag option) \<Rightarrow> panic + (bytes \<Rightarrow> flag option)" where
  "replayAll fc [] states = Inr states"
| "replayAll fc (num # nums) states =
     (case fc num of
        None \<Rightarrow> Inl NilDereference
      | Some b \<Rightarrow> replayAll fc nums (fold applySwitch (Vals (BSwitchInfos b)) states))"

text \<open>Replaying up to the first switch block at or above \<open>fastNumber\<close>.\<close>

fun replayBelow ::
  "fastchain \<Rightarrow> 64 word \<Rightarrow> 64 word list \<Rightarrow> (bytes \<Rightarrow> flag option)
     \<Rightarrow> panic + (bytes \<Rightarrow> flag option)" where
  "replayBelow fc fastNumber [] states = Inr states"
| "replayBelow fc fastNumber (num # nums) states =
     (if fastNumber \<le> num then Inr states
      else case fc num of
             None \<Rightarrow> Inl NilDereference
           | Some b \<Rightarrow>
               replayBelow fc fastNumber nums (fold applySwitch (Vals (BSwitchInfos b)) states))"

definition effectiveMembers :: "committee \<Rightarrow> (bytes \<Rightarrow> flag option) \<Rightarrow> CommitteeMember list" where
  "effectiveMembers c states =
     filter (\<lambda>m. case states (MPublickey m) of
                   Some flag \<Rightarrow> flag \<noteq> StateRemovedFlag
                 | None \<Rightarrow> True) (members c)
     @ filter (\<lambda>m. case states (MPublickey m) of
                     Some flag \<Rightarrow> flag = StateAppendFlag
                   | None \<Rightarrow> False) (backupMembers c)"

text \<open>\<^verbatim>\<open>GetCommittee\<close>; the \<^verbatim>\<open>nil\<close> result is the empty list.\<close>

definition GetCommittee ::
  "params \<Rightarrow> env \<Rightarrow> Election \<Rightarrow> int \<Rightarrow> panic + (CommitteeMember list \<times> Election)" where
  "GetCommittee P E e fastNumber =
     bindP (electedCommittee P E e fastNumber)
       (\<lambda>(found, e').
          case found of
            None \<Rightarrow> Inr ([], e')
          | Some c \<Rightarrow>
              if switches c = [] then Inr (members c, e')
              else
                bindP (if last (switches c) < Uint64 fastNumber
                       then replayAll (fast E) (switches c) Map.empty
                       else replayBelow (fast E) (Uint64 fastNumber) (switches c) Map.empty)
                  (\<lambda>states. Inr (effectiveMembers c states, e')))"

text \<open>\<^verbatim>\<open>filterWithSwitchInfo\<close>: members and backups with all switch infos applied.\<close>

definition filterWithSwitchInfo ::
  "env \<Rightarrow> committee \<Rightarrow> panic + (CommitteeMember list \<times> CommitteeMember list)" where
  "filterWithSwitchInfo E c =
     (if switches c = [] then Inr (members c, backupMembers c)
      else
        bindP (replayAll (fast E) (switches c) Map.empty)
          (\<lambda>states.
             Inr (map (\<lambda>m. if states (MPublickey m) = Some StateRemovedFlag
                           then m \<lparr> Flag := StateRemovedFlag \<rparr> else m) (members c),
                  map (\<lambda>m. if states (MPublickey m) = Some StateAppendFlag
                           then m \<lparr> Flag := StateUsedFlag \<rparr>
                           else if states (MPublickey m) = Some StateRemovedFlag
                           then m \<lparr> Flag := StateRemovedFlag \<rparr> else m) (backupMembers c))))"

datatype ElectionOption =
  CommitteeSwitchover | CommitteeStart | CommitteeStop | CommitteeOver | CommitteeUpdate

record ElectionEvent =
  EvOption :: ElectionOption
  CommitteeID :: int
  BeginFastNumber :: int
  EndFastNumber :: "int option"
  CommitteeMembers :: "CommitteeMember list"
  BackupMembers :: "CommitteeMember list"

text \<open>
  What \<^verbatim>\<open>updateMembers\<close> did: returned at once, warned and returned, or recorded the switch
  block and published the update.
\<close>

datatype updated = Ignored | Rejected | Updated Election ElectionEvent

definition recordSwitch ::
  "env \<Rightarrow> Election \<Rightarrow> int \<Rightarrow> SwitchInfos \<Rightarrow> committee \<Rightarrow> (committee \<Rightarrow> Election \<Rightarrow> Election)
     \<Rightarrow> panic + updated" where
  "recordSwitch E e fastNumber infos c store =
     (let c' = c \<lparr> switches := switches c @ [Uint64 fastNumber] \<rparr>;
          e' = (store c' e) \<lparr> committeeStates := (committeeStates e)(CID infos := switches c') \<rparr>
      in bindP (filterWithSwitchInfo E c')
           (\<lambda>(ms, backups).
              Inr (Updated e'
                     \<lparr> EvOption = CommitteeUpdate, CommitteeID = id' c',
                       BeginFastNumber = fastNumber,
                       EndFastNumber = Some (case endFastNumber c' of Some n \<Rightarrow> n | None \<Rightarrow> 0),
                       CommitteeMembers = ms, BackupMembers = backups \<rparr>)))"

text \<open>
  \<^verbatim>\<open>updateMembers\<close>.  The ids are compared through \<^verbatim>\<open>e.committee.id\<close> and
  \<^verbatim>\<open>e.nextCommittee.id\<close>, each read through its pointer.
\<close>

definition updateMembers ::
  "env \<Rightarrow> Election \<Rightarrow> int \<Rightarrow> SwitchInfos option \<Rightarrow> panic + updated" where
  "updateMembers E e fastNumber infos' =
     (case infos' of
        None \<Rightarrow> Inr Ignored
      | Some infos \<Rightarrow>
          if Vals infos = [] then Inr Ignored
          else
            (case committee e of
               None \<Rightarrow> Inl NilDereference
             | Some cur \<Rightarrow>
                 if CID infos = Uint64 (id' cur)
                 then recordSwitch E e fastNumber infos cur (\<lambda>c s. s \<lparr> committee := Some c \<rparr>)
                 else
                   (case nextCommittee e of
                      None \<Rightarrow> Inl NilDereference
                    | Some nxt \<Rightarrow>
                        if CID infos = Uint64 (id' nxt)
                        then recordSwitch E e fastNumber infos nxt
                               (\<lambda>c s. s \<lparr> nextCommittee := Some c \<rparr>)
                        else Inr Rejected)))"

section \<open>Election: the event loop\<close>

text \<open>
  The snail-head case of \<^verbatim>\<open>loop\<close> for a block of height \<open>number\<close>: the state after the
  event and the events published, in order.
\<close>

definition loopSnailEvent ::
  "params \<Rightarrow> env \<Rightarrow> Election \<Rightarrow> int \<Rightarrow> panic + (Election \<times> ElectionEvent list)" where
  "loopSnailEvent P E e number =
     (case committee e of
        None \<Rightarrow> Inl NilDereference
      | Some cur \<Rightarrow>
          if switchCheckNumber cur \<noteq> number then Inr (e, [])
          else
            let snailEndNumber = number - SnailConfirmInterval P;
                snailStartNumber =
                  (if snailEndNumber < ElectionPeriodNumber P then 1
                   else snailEndNumber - ElectionPeriodNumber P + 1)
            in bindP (getLastNumber P (snail E) snailStartNumber snailEndNumber)
                 (\<lambda>r. case r of
                         None \<Rightarrow> Inl NilDereference
                       | Some lastFastNumber \<Rightarrow>
                           let cur' = cur \<lparr> endFastNumber := Some lastFastNumber \<rparr>;
                               e1 = e \<lparr> committee := Some cur' \<rparr>;
                               over = \<lparr> EvOption = CommitteeOver, CommitteeID = id' cur',
                                        BeginFastNumber = beginFastNumber cur',
                                        EndFastNumber = endFastNumber cur',
                                        CommitteeMembers = members cur', BackupMembers = [] \<rparr>
                           in bindP (getElectionMembers P E e1 snailStartNumber snailEndNumber)
                                (\<lambda>(ms, e2).
                                   bindP (big_Div (switchCheckNumber cur') (ElectionPeriodNumber P))
                                     (\<lambda>nextId.
                                        let nxt = \<lparr> id' = nextId,
                                                    beginFastNumber = lastFastNumber + 1,
                                                    endFastNumber = None,
                                                    firstElectionNumber = snailStartNumber,
                                                    lastElectionNumber = snailEndNumber,
                                                    switchCheckNumber =
                                                      switchCheckNumber cur' + ElectionPeriodNumber P,
                                                    members = Members ms,
                                                    backupMembers = Backups ms,
                                                    switches = [] \<rparr>
                                        in if (case nextCommittee e2 of
                                                 Some old \<Rightarrow> id' old = id' nxt | None \<Rightarrow> False)
                                           then Inr (e2, [over])
                                           else Inr (e2 \<lparr> nextCommittee := Some nxt,
                                                          startSwitchover := True \<rparr>,
                                                     [over,
                                                      \<lparr> EvOption = CommitteeSwitchover,
                                                        CommitteeID = id' nxt,
                                                        BeginFastNumber = beginFastNumber nxt,
                                                        EndFastNumber = None,
                                                        CommitteeMembers = members nxt,
                                                        BackupMembers = backupMembers nxt \<rparr>])))))"

section \<open>Sealer: the mining loop\<close>

text \<open>
  The PoW function \<^verbatim>\<open>truehashFull\<close> over the active dataset and \<^verbatim>\<open>HashNoNonce\<close> are outside
  the sources at hand; they are parameters.  \<^verbatim>\<open>truehashFull\<close> returns the mix digest and the
  result, of which \<^verbatim>\<open>mineSnail\<close> reads bytes 0 to 15 and 16 onwards.
\<close>

record sealer =
  truehashFull :: "bytes \<Rightarrow> 64 word \<Rightarrow> bytes \<times> bytes"
  HashNoNonce :: "SnailHeader \<Rightarrow> hash"

text \<open>
  Modelled from the spec: the variable \<^verbatim>\<open>maxUint128\<close> of package \<^verbatim>\<open>minerva\<close> is declared
  outside the sources at hand; the targets of the specification are \<open>2 ^ 128\<close> divided by
  the difficulty.
\<close>

definition maxUint128 :: int where
  "maxUint128 = 2 ^ 128"

text \<open>\<^verbatim>\<open>(*big.Int).SetBytes\<close>: the bytes read as a big-endian unsigned number.\<close>

definition SetBytes :: "bytes \<Rightarrow> int" where
  "SetBytes bs = foldl (\<lambda>acc b. acc * 256 + uint b) 0 bs"

text \<open>\<^verbatim>\<open>common.BytesToHash\<close>: the last 32 bytes, right-aligned.\<close>

definition BytesToHash :: "bytes \<Rightarrow> hash" where
  "BytesToHash bs = word_of_int (SetBytes bs)"

text \<open>\<^verbatim>\<open>WithSeal\<close>: the block with its header replaced; the body stays.\<close>

definition WithSeal :: "SnailBlock \<Rightarrow> SnailHeader \<Rightarrow> SnailBlock" where
  "WithSeal block header = SnailBlock header (Fruits block) (Signs block)"

text \<open>
  One pass of the \<^verbatim>\<open>default\<close> branch of the search loop for one nonce.  A block seal ends
  the search; a fruit seal is offered and the search goes on with the sealed header copy
  in the variable \<^verbatim>\<open>header\<close>.
\<close>

datatype attempt = Miss | FoundFruit SnailBlock SnailHeader | FoundBlock SnailBlock

definition mineAttempt ::
  "sealer \<Rightarrow> SnailBlock \<Rightarrow> bytes \<Rightarrow> int \<Rightarrow> int \<Rightarrow> SnailHeader \<Rightarrow> 64 word \<Rightarrow> panic + attempt" where
  "mineAttempt S block hash target fruitTarget header nonce =
     (let (digest, result) = truehashFull S hash nonce in
      if length result < 16 then Inl IndexOutOfRange
      else if SetBytes (take 16 result) \<le> target then
        (if Fruits block \<noteq> None
         then Inr (FoundBlock (WithSeal block
                     (header \<lparr> Nonce := nonce, MixDigest := BytesToHash digest, Fruit := False \<rparr>)))
         else Inr Miss)
      else if Uint64 (FastNumber header) \<noteq> 0 then
        (if SetBytes (drop 16 result) \<le> fruitTarget
         then let header' = header \<lparr> Nonce := nonce, MixDigest := BytesToHash digest,
                                     Fruit := True \<rparr>
              in Inr (FoundFruit (WithSeal block header') header')
         else Inr Miss)
      else Inr Miss)"

text \<open>
  The search loop.  The abort channel is the number of attempts made before the abort is
  seen; the result is the list of seals offered on the \<^verbatim>\<open>found\<close> channel, in order.
\<close>

fun mineLoop ::
  "sealer \<Rightarrow> SnailBlock \<Rightarrow> bytes \<Rightarrow> int \<Rightarrow> int \<Rightarrow> nat \<Rightarrow> SnailHeader \<Rightarrow> 64 word
     \<Rightarrow> panic + SnailBlock list" where
  "mineLoop S block hash target fruitTarget 0 header nonce = Inr []"
| "mineLoop S block hash target fruitTarget (Suc attempts) header nonce =
     bindP (mineAttempt S block hash target fruitTarget header nonce)
       (\<lambda>a. case a of
               FoundBlock sealed \<Rightarrow> Inr [sealed]
             | FoundFruit sealed header' \<Rightarrow>
                 bindP (mineLoop S block hash target fruitTarget attempts header' (nonce + 1))
                   (\<lambda>more. Inr (sealed # more))
             | Miss \<Rightarrow> mineLoop S block hash target fruitTarget attempts header (nonce + 1))"

definition mineSnail :: "sealer \<Rightarrow> SnailBlock \<Rightarrow> 64 word \<Rightarrow> nat \<Rightarrow> panic + SnailBlock list" where
  "mineSnail S block seed attempts =
     (let header = Header block;
          hash = hash_Bytes (HashNoNonce S header)
      in bindP (big_Div maxUint128 (Difficulty header))
           (\<lambda>target.
              bindP (big_Div maxUint128 (FruitDifficulty header))
                (\<lambda>fruitTarget. mineLoop S block hash target fruitTarget attempts header seed)))"

section \<open>Fruit pool: state and admission\<close>

datatype poolerr = ErrInvalidSign | ErrExist | ErrNotExist | ErrInvalidHash | ErrExceedNumber
  | ErrSnailHeightNotYet | ErrValidation nat

text \<open>
  What the pool reads from its collaborators: the snail chain (head and blocks), the fast
  chain (head number and block lookup), the fruit validator, the freshness check of the
  engine, the block hash and the hash of the signatures.  They are parameters.
\<close>

record poolenv =
  CurrentBlock :: SnailBlock
  GetBlock :: "hash \<Rightarrow> 64 word \<Rightarrow> SnailBlock option"
  FastCurrentNumber :: int
  FastGetBlock :: "hash \<Rightarrow> 64 word \<Rightarrow> bool"
  ValidateFruit :: "SnailBlock \<Rightarrow> poolerr option"
  VerifyFreshness :: "SnailHeader \<Rightarrow> poolerr option"
  HashOf :: "SnailHeader \<Rightarrow> hash"
  CalcSignHash :: "bytes list \<Rightarrow> hash"

text \<open>
  The two Go maps are association lists with one entry per key; \<^verbatim>\<open>len\<close> is the length.
\<close>

record SnailPool =
  FruitCount :: "64 word"
  allFruits :: "(hash \<times> SnailBlock) list"
  fruitPending :: "(hash \<times> SnailBlock) list"

definition appendFruit :: "SnailPool \<Rightarrow> SnailBlock \<Rightarrow> bool \<Rightarrow> poolerr option \<times> SnailPool" where
  "appendFruit pool fruit append' =
     (if unat (FruitCount pool) \<le> length (allFruits pool) then (Some ErrExceedNumber, pool)
      else (None,
            pool \<lparr> allFruits := AList.update (FastHash (Header fruit)) fruit (allFruits pool),
                   fruitPending :=
                     (if append'
                      then AList.update (FastHash (Header fruit)) fruit (fruitPending pool)
                      else fruitPending pool) \<rparr>))"

text \<open>\<^verbatim>\<open>addFruit\<close>: the error it returns, \<open>None\<close> for \<^verbatim>\<open>nil\<close>, and the pool afterwards.\<close>

definition addFruit :: "poolenv \<Rightarrow> SnailPool \<Rightarrow> SnailBlock \<Rightarrow> panic + (poolerr option \<times> SnailPool)" where
  "addFruit env pool fruit =
     (let headSnailBlock = CurrentBlock env;
          fruits = FruitsList headSnailBlock
      in if 0 < Uint64 (Number (Header headSnailBlock)) \<and> fruits = [] then Inl IndexOutOfRange
         else if 0 < Uint64 (Number (Header headSnailBlock))
                 \<and> FastNumber (Header fruit) \<le> FastNumber (Header (last fruits))
         then Inr (None, pool)
         else if FastCurrentNumber env < FastNumber (Header fruit)
         then Inr (appendFruit pool fruit False)
         else if \<not> FastGetBlock env (FastHash (Header fruit)) (Uint64 (FastNumber (Header fruit)))
         then Inr (Some ErrNotExist, pool)
         else
           (case map_of (allFruits pool) (FastHash (Header fruit)) of
              Some f \<Rightarrow>
                (case ValidateFruit env fruit of
                   Some err \<Rightarrow> Inr (Some err, pool)
                 | None \<Rightarrow>
                     if Difficulty (Header fruit) < Difficulty (Header f) then Inr (None, pool)
                     else if Difficulty (Header fruit) = Difficulty (Header f) then
                       (if HashOf env (Header f) \<le> HashOf env (Header fruit) then Inr (None, pool)
                        else Inr (appendFruit pool fruit True))
                     else Inr (appendFruit pool fruit True))
            | None \<Rightarrow>
                (case ValidateFruit env fruit of
                   Some err \<Rightarrow>
                     if err = ErrSnailHeightNotYet then Inr (appendFruit pool fruit False)
                     else Inr (Some err, pool)
                 | None \<Rightarrow> Inr (appendFruit pool fruit True))))"

text \<open>The integrity check of the batch entry points.\<close>

definition validateFruit :: "poolenv \<Rightarrow> SnailBlock \<Rightarrow> poolerr option" where
  "validateFruit env fruit =
     (if SignHash (Header fruit) \<noteq> CalcSignHash env (Signs fruit) then Some ErrInvalidSign
      else None)"

text \<open>
  \<^verbatim>\<open>AddRemoteFruits\<close>: the error slice it returns and the fruits it sends on \<^verbatim>\<open>newFruitCh\<close>.
\<close>

definition AddRemoteFruits :: "poolenv \<Rightarrow> SnailBlock list \<Rightarrow> poolerr option list \<times> SnailBlock list" where
  "AddRemoteFruits env fruits =
     (map (validateFruit env) fruits, filter (\<lambda>fruit. validateFruit env fruit = None) fruits)"

text \<open>
  The \<^verbatim>\<open>newFruitCh\<close> case of the pool's loop, run over the fruits of the channel in order.
  The loop drops what \<^verbatim>\<open>addFruit\<close> returns; the first component lists what was dropped.
\<close>

fun loopFruits ::
  "poolenv \<Rightarrow> SnailPool \<Rightarrow> SnailBlock list \<Rightarrow> panic + (poolerr option list \<times> SnailPool)" where
  "loopFruits env pool [] = Inr ([], pool)"
| "loopFruits env pool (fruit # rest) =
     bindP (addFruit env pool fruit)
       (\<lambda>(err, pool').
          bindP (loopFruits env pool' rest) (\<lambda>(errs, pool''). Inr (err # errs, pool'')))"

text \<open>A remote batch followed by the loop draining the channel.\<close>

definition remoteBatch ::
  "poolenv \<Rightarrow> SnailPool \<Rightarrow> SnailBlock list
     \<Rightarrow> panic + (poolerr option list \<times> poolerr option list \<times> SnailPool)" where
  "remoteBatch env pool fruits =
     (let (errs, sent) = AddRemoteFruits env fruits
      in bindP (loopFruits env pool sent) (\<lambda>(dropped, pool'). Inr (errs, dropped, pool')))"

section \<open>Fruit pool: removal and reorganisation\<close>

definition deleteFruit :: "hash \<Rightarrow> SnailPool \<Rightarrow> SnailPool" where
  "deleteFruit fasthash pool =
     pool \<lparr> fruitPending := AList.delete fasthash (fruitPending pool),
            allFruits := AList.delete fasthash (allFruits pool) \<rparr>"

definition RemovePendingFruitByFastHash :: "SnailPool \<Rightarrow> hash \<Rightarrow> SnailPool" where
  "RemovePendingFruitByFastHash pool fasthash = deleteFruit fasthash pool"

text \<open>
  \<^verbatim>\<open>removeWithLock\<close> and \<^verbatim>\<open>removeUnfreshFruit\<close> range over \<^verbatim>\<open>allFruits\<close> and delete the fast
  hash of each fruit that qualifies.  Every entry is stored under the fast hash of its
  fruit, so a deletion removes the entry being visited and the range visits the entries
  of the map as it was.
\<close>

definition removeWithLock :: "SnailPool \<Rightarrow> SnailBlock list \<Rightarrow> SnailPool" where
  "removeWithLock pool fruits =
     (if fruits = [] then pool
      else
        let maxFbNumber = FastNumber (Header (last fruits))
        in fold (\<lambda>(k, fruit) p.
                   if FastNumber (Header fruit) \<le> maxFbNumber
                   then deleteFruit (FastHash (Header fruit)) p else p)
             (allFruits pool) pool)"

definition removeUnfreshFruit :: "poolenv \<Rightarrow> SnailPool \<Rightarrow> SnailPool" where
  "removeUnfreshFruit env pool =
     fold (\<lambda>(k, fruit) p.
             case VerifyFreshness env (Header fruit) of
               Some err \<Rightarrow>
                 if err \<noteq> ErrSnailHeightNotYet then deleteFruit (FastHash (Header fruit)) p else p
             | None \<Rightarrow> p)
       (allFruits pool) pool"

text \<open>
  \<^verbatim>\<open>insertRestFruits\<close> stores every fruit in both maps; the lookup of its fast block comes
  after the two stores and changes nothing.
\<close>

definition insertRestFruits :: "SnailPool \<Rightarrow> SnailBlock list \<Rightarrow> SnailPool" where
  "insertRestFruits pool reinject =
     fold (\<lambda>fruit p.
             p \<lparr> allFruits := AList.update (FastHash (Header fruit)) fruit (allFruits p),
                 fruitPending := AList.update (FastHash (Header fruit)) fruit (fruitPending p) \<rparr>)
       reinject pool"

definition fruitsDifference :: "poolenv \<Rightarrow> SnailBlock list \<Rightarrow> SnailBlock list \<Rightarrow> SnailBlock list" where
  "fruitsDifference env a b =
     filter (\<lambda>f. HashOf env (Header f) \<notin> set (map (\<lambda>g. HashOf env (Header g)) b)) a"

definition NumberU64 :: "SnailBlock \<Rightarrow> 64 word" where
  "NumberU64 b = Uint64 (Number (Header b))"

text \<open>
  The three loops of \<^verbatim>\<open>reset\<close> that walk both branches back to their common ancestor.  Each
  runs on fuel: \<open>OutOfFuel\<close> is a walk that did not end within it, \<open>Unrooted\<close> the early
  return on a missing parent.
\<close>

datatype 'a walk = OutOfFuel | Unrooted | Walked 'a

fun walkOld ::
  "poolenv \<Rightarrow> nat \<Rightarrow> SnailBlock \<Rightarrow> SnailBlock \<Rightarrow> SnailBlock list
     \<Rightarrow> (SnailBlock \<times> SnailBlock list) walk" where
  "walkOld env 0 rem add discarded =
     (if NumberU64 add < NumberU64 rem then OutOfFuel else Walked (rem, discarded))"
| "walkOld env (Suc fuel) rem add discarded =
     (if NumberU64 add < NumberU64 rem then
        (case GetBlock env (ParentHash (Header rem)) (NumberU64 rem - 1) of
           None \<Rightarrow> Unrooted
         | Some rem' \<Rightarrow> walkOld env fuel rem' add (discarded @ FruitsList rem))
      else Walked (rem, discarded))"

fun walkNew ::
  "poolenv \<Rightarrow> nat \<Rightarrow> SnailBlock \<Rightarrow> SnailBlock \<Rightarrow> SnailBlock list
     \<Rightarrow> (SnailBlock \<times> SnailBlock list) walk" where
  "walkNew env 0 rem add included =
     (if NumberU64 rem < NumberU64 add then OutOfFuel else Walked (add, included))"
| "walkNew env (Suc fuel) rem add included =
     (if NumberU64 rem < NumberU64 add then
        (case GetBlock env (ParentHash (Header add)) (NumberU64 add - 1) of
           None \<Rightarrow> Unrooted
         | Some add' \<Rightarrow> walkNew env fuel rem add' (included @ FruitsList add))
      else Walked (add, included))"

fun walkBoth ::
  "poolenv \<Rightarrow> nat \<Rightarrow> SnailBlock \<Rightarrow> SnailBlock \<Rightarrow> SnailBlock list \<Rightarrow> SnailBlock list
     \<Rightarrow> (SnailBlock list \<times> SnailBlock list) walk" where
  "walkBoth env 0 rem add discarded included =
     (if HashOf env (Header rem) \<noteq> HashOf env (Header add) then OutOfFuel
      else Walked (discarded, included))"
| "walkBoth env (Suc fuel) rem add discarded included =
     (if HashOf env (Header rem) \<noteq> HashOf env (Header add) then
        (case GetBlock env (ParentHash (Header rem)) (NumberU64 rem - 1) of
           None \<Rightarrow> Unrooted
         | Some rem' \<Rightarrow>
             (case GetBlock env (ParentHash (Header add)) (NumberU64 add - 1) of
                None \<Rightarrow> Unrooted
              | Some add' \<Rightarrow>
                  walkBoth env fuel rem' add' (discarded @ FruitsList rem)
                    (included @ FruitsList add)))
      else Walked (discarded, included))"

definition reorgFruits :: "poolenv \<Rightarrow> nat \<Rightarrow> SnailBlock \<Rightarrow> SnailBlock \<Rightarrow> SnailBlock list walk" where
  "reorgFruits env fuel oldHead newHead =
     (case walkOld env fuel oldHead newHead [] of
        OutOfFuel \<Rightarrow> OutOfFuel
      | Unrooted \<Rightarrow> Unrooted
      | Walked (rem, discarded) \<Rightarrow>
          (case walkNew env fuel rem newHead [] of
             OutOfFuel \<Rightarrow> OutOfFuel
           | Unrooted \<Rightarrow> Unrooted
           | Walked (add, included) \<Rightarrow>
               (case walkBoth env fuel rem add discarded included of
                  OutOfFuel \<Rightarrow> OutOfFuel
                | Unrooted \<Rightarrow> Unrooted
                | Walked (discarded', included') \<Rightarrow>
                    Walked (fruitsDifference env discarded' included'))))"

text \<open>
  \<^verbatim>\<open>reset\<close> for a new head; \<open>None\<close> is a walk that ran out of fuel.  The depth of the
  reorganisation, computed in \<^verbatim>\<open>float64\<close> by the code, is the exact difference here.
\<close>

definition reset :: "poolenv \<Rightarrow> nat \<Rightarrow> SnailPool \<Rightarrow> SnailBlock option \<Rightarrow> SnailBlock \<Rightarrow> SnailPool option" where
  "reset env fuel pool oldHead' newHead =
     (let finish = (\<lambda>p. removeUnfreshFruit env (removeWithLock p (FruitsList newHead)))
      in case oldHead' of
           None \<Rightarrow> Some (finish pool)
         | Some oldHead \<Rightarrow>
             if HashOf env (Header oldHead) \<noteq> ParentHash (Header newHead) then
               (if 64 < \<bar>uint (NumberU64 oldHead) - uint (NumberU64 newHead)\<bar>
                then Some (finish pool)
                else
                  (case reorgFruits env fuel oldHead newHead of
                     OutOfFuel \<Rightarrow> None
                   | Unrooted \<Rightarrow> Some pool
                   | Walked reinject \<Rightarrow> Some (finish (insertRestFruits pool reinject))))
             else Some (finish pool))"

section \<open>Election: what the specification says\<close>

text \<open>
  The switch entries the specification replays for a fast height: those of the switch
  blocks numbered strictly below it, in the order of the committee's list.
\<close>

definition switchVals :: "fastchain \<Rightarrow> 64 word \<Rightarrow> SwitchEnter list" where
  "switchVals fc num = (case fc num of Some b \<Rightarrow> Vals (BSwitchInfos b) | None \<Rightarrow> [])"

definition replayed :: "fastchain \<Rightarrow> 64 word \<Rightarrow> 64 word list \<Rightarrow> SwitchEnter list" where
  "replayed fc fastNumber sw = concat (map (switchVals fc) (filter (\<lambda>num. num < fastNumber) sw))"

text \<open>
  The latest append or remove flag that a list of switch entries holds for a public key.
\<close>

definition latestFlag :: "SwitchEnter list \<Rightarrow> bytes \<Rightarrow> flag option" where
  "latestFlag vals pk =
     (case filter (\<lambda>s. Pk s = pk \<and> (SFlag s = StateAppendFlag \<or> SFlag s = StateRemovedFlag)) vals of
        [] \<Rightarrow> None
      | xs \<Rightarrow> Some (SFlag (last xs)))"

text \<open>
  Two environments that agree on the primitives of the election, and two that hold the
  same snail blocks throughout a window.
\<close>

definition samePrimitives :: "env \<Rightarrow> env \<Rightarrow> bool" where
  "samePrimitives E1 E2 \<longleftrightarrow>
     BlockHash E1 = BlockHash E2 \<and> Keccak256Hash E1 = Keccak256Hash E2
     \<and> PubkeyToAddress E1 = PubkeyToAddress E2 \<and> GetPubKey E1 = GetPubKey E2
     \<and> GetDifficulty E1 = GetDifficulty E2"

definition sameWindow :: "env \<Rightarrow> env \<Rightarrow> int \<Rightarrow> int \<Rightarrow> bool" where
  "sameWindow E1 E2 snailBeginNumber snailEndNumber \<longleftrightarrow>
     (\<forall>n. snailBeginNumber \<le> n \<and> n \<le> snailEndNumber
          \<longrightarrow> snail E1 (Uint64 n) = snail E2 (Uint64 n))"

section \<open>Sealer: what the specification says\<close>

text \<open>The two halves of a PoW result, read as numbers.\<close>

definition high128 :: "bytes \<Rightarrow> int" where "high128 result = SetBytes (take 16 result)"
definition low128 :: "bytes \<Rightarrow> int" where "low128 result = SetBytes (drop 16 result)"

text \<open>
  What a seal offered for \<open>nonce\<close> satisfies: a fruit seal comes from a template with a
  non-zero fast number whose high half missed the block target and whose low half meets
  the fruit target; a block seal comes from a template with a fruit list whose high half
  meets the block target.
\<close>

definition sealedAt :: "sealer \<Rightarrow> SnailBlock \<Rightarrow> SnailBlock \<Rightarrow> 64 word \<Rightarrow> bool" where
  "sealedAt S block sealed nonce \<longleftrightarrow>
     (let result = snd (truehashFull S (hash_Bytes (HashNoNonce S (Header block))) nonce);
          target = 2 ^ 128 div Difficulty (Header block);
          fruitTarget = 2 ^ 128 div FruitDifficulty (Header block)
      in Nonce (Header sealed) = nonce
         \<and> (Fruit (Header sealed) \<longrightarrow>
               Uint64 (FastNumber (Header block)) \<noteq> 0 \<and> \<not> high128 result \<le> target
               \<and> low128 result \<le> fruitTarget)
         \<and> (\<not> Fruit (Header sealed) \<longrightarrow>
               Fruits block \<noteq> None \<and> high128 result \<le> target))"

section \<open>Fruit pool: what the specification says\<close>

text \<open>
  Steps 1, 3 and 4 of the admission rule: the fruit is beyond the last fruit of the snail
  head, and its fast block is not ahead of the fast head and is known.
\<close>

definition passesHead :: "poolenv \<Rightarrow> SnailBlock \<Rightarrow> bool" where
  "passesHead env fruit \<longleftrightarrow>
     (0 < Uint64 (Number (Header (CurrentBlock env))) \<longrightarrow>
        FruitsList (CurrentBlock env) \<noteq> []
        \<and> FastNumber (Header (last (FruitsList (CurrentBlock env)))) < FastNumber (Header fruit))"

definition knownFast :: "poolenv \<Rightarrow> SnailBlock \<Rightarrow> bool" where
  "knownFast env fruit \<longleftrightarrow>
     FastNumber (Header fruit) \<le> FastCurrentNumber env
     \<and> FastGetBlock env (FastHash (Header fruit)) (Uint64 (FastNumber (Header fruit)))"

text \<open>A fruit that reaches the insertion: a future fruit, or a known one that validates.\<close>

definition admitted :: "poolenv \<Rightarrow> SnailBlock \<Rightarrow> bool" where
  "admitted env fruit \<longleftrightarrow>
     passesHead env fruit
     \<and> (FastCurrentNumber env < FastNumber (Header fruit)
        \<or> (knownFast env fruit
           \<and> (ValidateFruit env fruit = None
              \<or> ValidateFruit env fruit = Some ErrSnailHeightNotYet)))"

text \<open>The pool \<^verbatim>\<open>NewSnailPool\<close> creates for a cap, and the two invariants of the data model.\<close>

definition emptyPool :: "64 word \<Rightarrow> SnailPool" where
  "emptyPool cap = \<lparr> FruitCount = cap, allFruits = [], fruitPending = [] \<rparr>"

definition pendingWithinAll :: "SnailPool \<Rightarrow> bool" where
  "pendingWithinAll pool \<longleftrightarrow> fst ` set (fruitPending pool) \<subseteq> fst ` set (allFruits pool)"

definition withinCap :: "SnailPool \<Rightarrow> bool" where
  "withinCap pool \<longleftrightarrow> length (allFruits pool) \<le> unat (FruitCount pool)"

text \<open>
  The states of the pool: fruit additions, re-injections, resets and removals, each in
  any environment.
\<close>

inductive_set reachable :: "64 word \<Rightarrow> SnailPool set" for cap :: "64 word" where
  init: "emptyPool cap \<in> reachable cap"
| add: "pool \<in> reachable cap \<Longrightarrow> addFruit env pool fruit = Inr (err, pool') \<Longrightarrow> pool' \<in> reachable cap"
| reinject: "pool \<in> reachable cap \<Longrightarrow> insertRestFruits pool fruits \<in> reachable cap"
| reset: "pool \<in> reachable cap \<Longrightarrow> reset env fuel pool oldHead newHead = Some pool'
            \<Longrightarrow> pool' \<in> reachable cap"
| remove: "pool \<in> reachable cap \<Longrightarrow> RemovePendingFruitByFastHash pool fasthash \<in> reachable cap"

section \<open>Concrete data for the examples\<close>

definition h0 :: SnailHeader where
  "h0 = \<lparr> ParentHash = 0, Number = 0, Difficulty = 1, FruitDifficulty = 1, FastNumber = 0,
          FastHash = 0, Nonce = 0, MixDigest = 0, SignHash = 0, Fruit = False,
          ToElect = False, Coinbase = 0, Publickey = [] \<rparr>"

definition exParams :: params where
  "exParams = \<lparr> ElectionPeriodNumber = 4, SnailConfirmInterval = 1, ElectionSwitchoverNumber = 5,
          MinimumCommitteeNumber = 4, MaximumCommitteeNumber = 8, ElectionFruitsThreshold = 1 \<rparr>"

definition fruitAt :: "int \<Rightarrow> SnailBlock" where
  "fruitAt k = SnailBlock (h0\<lparr> Difficulty := 3, FruitDifficulty := 2, FastNumber := k,
                               FastHash := word_of_int k, Fruit := True, ToElect := (k \<le> 6),
                               Coinbase := word_of_int k, Publickey := [word_of_int k] \<rparr>) None []"

definition blockAt :: "int \<Rightarrow> SnailBlock" where
  "blockAt n = SnailBlock (h0\<lparr> Number := n \<rparr>) (Some [fruitAt (2 * n - 1), fruitAt (2 * n)]) []"

text \<open>Snail blocks 1 to 4 and 7 with two fruits each, and a block 9 without fruit.\<close>

definition exChain :: snailchain where
  "exChain = (\<lambda>w. if w = 1 then Some (blockAt 1) else if w = 2 then Some (blockAt 2)
                   else if w = 3 then Some (blockAt 3) else if w = 4 then Some (blockAt 4)
                   else if w = 7 then Some (blockAt 7)
                   else if w = 9 then Some (SnailBlock (h0\<lparr>Number := 9\<rparr>) None [])
                   else None)"

definition exSwitch20 :: Block where
  "exSwitch20 = \<lparr> BNumber = 20, BHash = 20,
       BSwitchInfos = \<lparr> CID = 1, Vals = [\<lparr> Pk = [2], SFlag = StateRemovedFlag \<rparr>,
                                         \<lparr> Pk = [5], SFlag = StateAppendFlag \<rparr>] \<rparr> \<rparr>"

definition exSwitch30 :: Block where
  "exSwitch30 = \<lparr> BNumber = 30, BHash = 30,
       BSwitchInfos = \<lparr> CID = 1, Vals = [\<lparr> Pk = [5], SFlag = StateRemovedFlag \<rparr>] \<rparr> \<rparr>"

definition exFast :: fastchain where
  "exFast = (\<lambda>w. if w = 20 then Some exSwitch20 else if w = 30 then Some exSwitch30 else None)"

definition exEnv :: env where
  "exEnv = \<lparr> snail = exChain, fast = exFast, fastHeadNumber = 40, snailHeadNumber = 7,
          GetFruitByFastHash = (\<lambda>h. None),
          BlockHash = (\<lambda>h. 0),
          Keccak256Hash = (\<lambda>bs. if bs = [] then 0 else word_of_int (uint (last bs) * 2 ^ 253)),
          PubkeyToAddress = (\<lambda>bs. case bs of [] \<Rightarrow> 0 | b # _ \<Rightarrow> ucast b),
          GetPubKey = (\<lambda>h. if Publickey h = [] then None else Some (Publickey h)),
          GetDifficulty = (\<lambda>h. (Difficulty h, FruitDifficulty h)) \<rparr>"

text \<open>The six candidates of the window 1 to 3, one per fruit, with their lottery ranges.\<close>

definition exCandidates :: "candidateMember list" where
  "exCandidates =
     assignRanges (2 ^ 256 div 6) 0
       (map (\<lambda>k. \<lparr> coinbase = word_of_int k, address = word_of_int k,
                    publickey = [word_of_int k], difficulty = 1, upper = 0, lower = 0 \<rparr>)
          [1, 2, 3, 4, 5, 6])"

text \<open>The members the lottery draws from them, in draw order.\<close>

definition exDrawn :: "CommitteeMember list" where
  "exDrawn = map (\<lambda>k. \<lparr> MCoinbase = word_of_int k, MPublickey = [word_of_int k],
                         Flag = StateUnusedFlag, MType = TypeUnset \<rparr>) [1, 2, 3, 4, 5, 6]"

definition zeros32 :: bytes where
  "zeros32 = replicate 32 0"

definition genesisMember :: "int \<Rightarrow> CommitteeMember" where
  "genesisMember k = \<lparr> MCoinbase = word_of_int k, MPublickey = [word_of_int k],
                       Flag = StateUsedFlag, MType = TypeFixed \<rparr>"

definition electedMember :: "int \<Rightarrow> CommitteeMember" where
  "electedMember k = \<lparr> MCoinbase = word_of_int k, MPublickey = [word_of_int k],
                       Flag = StateUsedFlag, MType = TypeWorked \<rparr>"

definition exCommittee1 :: ElectionCommittee where
  "exCommittee1 = \<lparr> Members = map electedMember [1, 2, 3, 4],
       Backups = map (\<lambda>k. (electedMember k)\<lparr>Flag := StateUnusedFlag, MType := TypeBack\<rparr>) [5, 6]
                 @ map (\<lambda>k. (genesisMember k)\<lparr>Flag := StateUnusedFlag\<rparr>) [101, 102, 103, 104] \<rparr>"

definition exCommittee2 :: ElectionCommittee where
  "exCommittee2 = \<lparr> Members = map genesisMember [101, 102, 103, 104], Backups = [] \<rparr>"

text \<open>Committee 1 as \<^const>\<open>getCommittee\<close> derives it from snail height 5.\<close>

definition exC1 :: committee where
  "exC1 = \<lparr> id' = 1, beginFastNumber = 12, endFastNumber = Some 0, firstElectionNumber = 1,
       lastElectionNumber = 3, switchCheckNumber = 8, members = Members exCommittee1,
       backupMembers = Backups exCommittee1, switches = [] \<rparr>"

text \<open>An election whose current committee is committee 1 and that has no next committee.\<close>

definition exElection :: Election where
  "exElection = \<lparr> genesisCommittee = map genesisMember [101, 102, 103, 104],
          defaultMembers = map (\<lambda>k. (genesisMember k)\<lparr>Flag := StateUnusedFlag\<rparr>) [101, 102, 103, 104],
          commiteeCache = [1 \<mapsto> exCommittee1, 2 \<mapsto> exCommittee2],
          committeeDB = [1 \<mapsto> exCommittee1, 2 \<mapsto> exCommittee2],
          committeeStates = (\<lambda>k. []),
          electionMode = ElectModeEtrue, committee = Some exC1, nextCommittee = None,
          startSwitchover = False \<rparr>"

text \<open>The same election after the switch infos of fast blocks 20 and 30 were recorded.\<close>

definition exSwitched :: Election where
  "exSwitched = exElection \<lparr> committee := Some (exC1 \<lparr> switches := [20, 30] \<rparr>) \<rparr>"

text \<open>
  Another environment and election: the snail chain differs outside the window of committee
  1, the fast chain is empty, the cache and the committees are gone.
\<close>

definition exEnv' :: env where
  "exEnv' = exEnv \<lparr> snail := exChain(7 := None), fast := (\<lambda>n. None), fastHeadNumber := 0 \<rparr>"

definition exElection' :: Election where
  "exElection' = exElection \<lparr> commiteeCache := Map.empty, committee := None,
                               startSwitchover := True \<rparr>"

text \<open>
  A PoW stub whose result has high half 1 and low half 0, and a template with one fruit,
  fast number 7, block target 0 and fruit target \<open>2 ^ 128\<close>.
\<close>

definition exSealer :: sealer where
  "exSealer = \<lparr> truehashFull = (\<lambda>hash nonce.
                   ([], [0, 0, 0, 0, 0, 0, 0, 0, 0, 0, 0, 0, 0, 0, 0, 1,
                         0, 0, 0, 0, 0, 0, 0, 0, 0, 0, 0, 0, 0, 0, 0, 0])),
                HashNoNonce = (\<lambda>h. 0) \<rparr>"

definition exTemplate :: SnailBlock where
  "exTemplate = SnailBlock (h0 \<lparr> Number := 5, Difficulty := 2 ^ 129, FruitDifficulty := 1,
                                 FastNumber := 7 \<rparr>) (Some [fruitAt 1]) []"

definition exSeal :: SnailBlock where
  "exSeal = WithSeal exTemplate (Header exTemplate \<lparr> Nonce := 0, MixDigest := 0, Fruit := True \<rparr>)"

text \<open>
  Two snail branches over a common genesis block: the old head holds fruits 1 to 3, the
  new head another fruit for fast block 1.
\<close>

definition exGenesis :: SnailBlock where
  "exGenesis = SnailBlock (h0 \<lparr> MixDigest := 100 \<rparr>) None []"

definition exOldHead :: SnailBlock where
  "exOldHead = SnailBlock (h0 \<lparr> ParentHash := 100, Number := 1, MixDigest := 101 \<rparr>)
                 (Some [fruitAt 1, fruitAt 2, fruitAt 3]) []"

definition exNewHead :: SnailBlock where
  "exNewHead = SnailBlock (h0 \<lparr> ParentHash := 100, Number := 1, MixDigest := 102 \<rparr>)
                 (Some [SnailBlock (Header (fruitAt 1) \<lparr> MixDigest := 50 \<rparr>) None []]) []"

definition exPoolEnv :: poolenv where
  "exPoolEnv = \<lparr> CurrentBlock = exOldHead,
       GetBlock = (\<lambda>h n. if h = 100 \<and> n = 0 then Some exGenesis
                          else if h = 101 \<and> n = 1 then Some exOldHead
                          else if h = 102 \<and> n = 1 then Some exNewHead else None),
       FastCurrentNumber = 10,
       FastGetBlock = (\<lambda>h n. True),
       ValidateFruit = (\<lambda>f. None),
       VerifyFreshness = (\<lambda>h. None),
       HashOf = (\<lambda>h. MixDigest h + FastHash h),
       CalcSignHash = (\<lambda>signs. 0) \<rparr>"

definition exGenesisEnv :: poolenv where
  "exGenesisEnv = exPoolEnv \<lparr> CurrentBlock := exGenesis, FastCurrentNumber := 0 \<rparr>"

definition exFullPool :: SnailPool where
  "exFullPool = \<lparr> FruitCount = 1, allFruits = [(5, fruitAt 5)], fruitPending = [(5, fruitAt 5)] \<rparr>"

text \<open>The pool of cap 1 with three fruits.\<close>

definition exOverPool :: SnailPool where
  "exOverPool = \<lparr> FruitCount = 1,
       allFruits = [(5, fruitAt 5), (2, fruitAt 2), (3, fruitAt 3)],
       fruitPending = [(5, fruitAt 5), (2, fruitAt 2), (3, fruitAt 3)] \<rparr>"

text \<open>A fruit for fast block 5 with a higher difficulty than \<open>fruitAt 5\<close>.\<close>

definition exBetter :: SnailBlock where
  "exBetter = SnailBlock (Header (fruitAt 5) \<lparr> Difficulty := 4, MixDigest := 60 \<rparr>) None []"

definition exRoomPool :: SnailPool where
  "exRoomPool = \<lparr> FruitCount = 2, allFruits = [(5, fruitAt 5)], fruitPending = [(5, fruitAt 5)] \<rparr>"

text \<open>A batch of \<open>n\<close> fruits for the fast blocks 1 to \<open>n\<close>.\<close>

definition exBatch :: "nat \<Rightarrow> SnailBlock list" where
  "exBatch n = map (\<lambda>k. fruitAt (int k)) [1..<Suc n]"

section \<open>Election: the end of a committee's fast range\<close>

text \<open>
  C10.  \<^verbatim>\<open>getLastNumber\<close> indexes the last fruit of the end-election snail block without
  checking for emptiness.  Whenever both blocks of the window exist and the end block
  has no fruit, the call panics with an index out of range; it does not return \<^verbatim>\<open>nil\<close>
  or a number.  A number is returned only when the end block holds at least one fruit,
  and it is the fast number of the last fruit plus the switchover number.
\<close>

theorem getLastNumber_needs_fruit:
  "(chain (Uint64 b) \<noteq> None \<and> chain (Uint64 e) = Some blk \<and> FruitsList blk = []
      \<longrightarrow> getLastNumber P chain b e = Inl IndexOutOfRange)
   \<and> (getLastNumber P chain b e = Inr (Some n)
      \<longrightarrow> (\<exists>blk'. chain (Uint64 e) = Some blk' \<and> FruitsList blk' \<noteq> []
             \<and> n = FastNumber (Header (last (FruitsList blk'))) + ElectionSwitchoverNumber P))
   \<and> (getLastNumber P chain b e = Inr None
      \<longrightarrow> chain (Uint64 b) = None \<or> chain (Uint64 e) = None)"
  by (auto simp: getLastNumber_def Let_def split: option.splits if_splits)

theorem getLastNumber_needs_fruit_witness:
  "getLastNumber exParams exChain 1 9 = Inl IndexOutOfRange
   \<and> exChain (Uint64 1) \<noteq> None
   \<and> exChain (Uint64 9) = Some (SnailBlock (h0\<lparr>Number := 9\<rparr>) None [])
   \<and> FruitsList (SnailBlock (h0\<lparr>Number := 9\<rparr>) None []) = []"
  using getLastNumber_needs_fruit
          [of exChain 1 9 "SnailBlock (h0\<lparr>Number := 9\<rparr>) None []" exParams]
  by (simp add: exChain_def Uint64_def FruitsList_def)

section \<open>Election: evaluating the examples\<close>

lemma ex_last: "getLastNumber exParams exChain 1 3 = Inr (Some 11)"
  by (simp add: getLastNumber_def exChain_def Uint64_def blockAt_def fruitAt_def FruitsList_def exParams_def)

lemma ex_last2: "getLastNumber exParams exChain 4 7 = Inr (Some 19)"
  by (simp add: getLastNumber_def exChain_def Uint64_def blockAt_def fruitAt_def FruitsList_def exParams_def)

lemma ex_members1: "getElectionMembers exParams exEnv exElection 1 3 = Inr (exCommittee1, exElection)"
  by (simp add: getElectionMembers_def exParams_def exElection_def big_Div_def bindP_def Uint64_def)

lemma ex_members2:
  "commiteeCache s 2 = Some exCommittee2 \<Longrightarrow>
     getElectionMembers exParams exEnv s 4 7 = Inr (exCommittee2, s)"
  by (simp add: getElectionMembers_def exParams_def big_Div_def bindP_def Uint64_def)

lemma ex_cache2: "commiteeCache exElection 2 = Some exCommittee2"
  by (simp add: exElection_def)

lemma exParams_simps:
  "ElectionPeriodNumber exParams = 4" "SnailConfirmInterval exParams = 1"
  by (simp_all add: exParams_def)

lemma exEnv_simps: "snail exEnv = exChain"
  by (simp add: exEnv_def)

lemma exElection_simps:
  "committee exElection = Some exC1" "nextCommittee exElection = None"
  "committeeStates exElection = (\<lambda>k. [])"
  by (simp_all add: exElection_def)

lemma ex_getCommittee: "getCommittee exParams exEnv exElection 1000 5 = Inr (Some exC1, exElection)"
  by (simp add: getCommittee_def big_Div_def bindP_def clampBegin_def Let_def ex_last ex_members1
        exParams_simps exEnv_simps exElection_simps exC1_def)

lemma ex_loop_quiet: "loopSnailEvent exParams exEnv exElection 4 = Inr (exElection, [])"
  by (simp add: loopSnailEvent_def exElection_simps exC1_def)

lemma ex_loop_elects:
  "map_sum id (map_option id' \<circ> nextCommittee \<circ> fst) (loopSnailEvent exParams exEnv exElection 8) = Inr (Some 2)"
  by (simp add: loopSnailEvent_def big_Div_def bindP_def Let_def ex_last2 ex_members2 ex_cache2
        exParams_simps exEnv_simps exElection_simps exC1_def)

text \<open>The election of committee 1 from the snail blocks 1 to 3, step by step.\<close>

lemma ex_hash_Bytes: "hash_Bytes 0 = zeros32"
  by (simp add: hash_Bytes_def zeros32_def numeral_eq_Suc upt_rec)

lemma ex_seed: "Keccak256Hash exEnv (zeros32 @ zeros32 @ zeros32) = 0"
  by (simp add: exEnv_def zeros32_def)

lemma ex_collect:
  "collectBlocks exEnv 1 3 ([], [], Map.empty)
     = Some (zeros32 @ zeros32 @ zeros32,
             map (\<lambda>k. \<lparr> coinbase = word_of_int k, address = word_of_int k,
                    publickey = [word_of_int k], difficulty = 1, upper = 0, lower = 0 \<rparr>)
               [1, 2, 3, 4, 5, 6],
             [1 \<mapsto> 1, 2 \<mapsto> 1, 3 \<mapsto> 1, 4 \<mapsto> 1, 5 \<mapsto> 1, 6 \<mapsto> 1])"
  by (simp add: collectBlocks.simps exEnv_def exChain_def Uint64_def blockAt_def FruitsList_def
        h0_def ex_hash_Bytes fruitAt_def)

lemma ex_candidates: "getCandinates exParams exEnv 1 3 = Inr (0, Some exCandidates)"
  by (simp add: getCandinates_def ex_collect ex_seed)
     (simp add: exParams_def exCandidates_def big_Div_def bindP_def maxUint256_def)

lemma ex_elect:
  "elect exParams exEnv exElection exCandidates 0
     = exDrawn"
  by (simp add: elect_def electLoop.simps exEnv_def exParams_def exElection_def Let_def
        big_Bytes_def be_bytes.simps exCandidates_def maxUint256_def genesisMember_def
        uint_word_of_int exDrawn_def)

lemma ex_drawn:
  "drawnMembers exParams exEnv exElection 1 3
     = Inr exDrawn"
  by (simp add: drawnMembers_def ex_candidates ex_elect bindP_def)

lemma ex_electCommittee: "electCommittee exParams exEnv exElection 1 3 = Inr exCommittee1"
  by (simp add: electCommittee_def ex_drawn bindP_def)
     (simp add: splitCommittee_def exParams_def exCommittee1_def exElection_def electedMember_def
        genesisMember_def exDrawn_def)

section \<open>Election: switch infos without a next committee\<close>

lemma recordSwitch_not_Rejected: "recordSwitch E e n infos c st \<noteq> Inr Rejected"
  by (auto simp: recordSwitch_def bindP_def Let_def split: sum.splits prod.splits)

text \<open>
  C9.  A switch info with at least one entry whose committee id is not the current
  committee's makes \<^verbatim>\<open>updateMembers\<close> read \<^verbatim>\<open>e.nextCommittee.id\<close>; without a next
  committee that is a nil dereference.  The branch that warns and rejects is taken only
  in a state that has a next committee.
\<close>

theorem updateMembers_nil_next:
  "(Vals infos \<noteq> [] \<and> committee e = Some cur \<and> CID infos \<noteq> Uint64 (id' cur)
      \<and> nextCommittee e = None
      \<longrightarrow> updateMembers E e fastNumber (Some infos) = Inl NilDereference)
   \<and> (updateMembers E e fastNumber infos' = Inr Rejected
      \<longrightarrow> (\<exists>nxt. nextCommittee e = Some nxt))"
  by (auto simp: updateMembers_def recordSwitch_not_Rejected split: option.splits if_splits)

theorem updateMembers_nil_next_witness:
  "updateMembers exEnv exElection 50
     (Some \<lparr> CID = 9, Vals = [\<lparr> Pk = [1], SFlag = StateRemovedFlag \<rparr>] \<rparr>) = Inl NilDereference
   \<and> committee exElection = Some exC1 \<and> nextCommittee exElection = None
   \<and> (9 :: 64 word) \<noteq> Uint64 (id' exC1)"
  using updateMembers_nil_next
          [of "\<lparr> CID = 9, Vals = [\<lparr> Pk = [1], SFlag = StateRemovedFlag \<rparr>] \<rparr>" exElection exC1
              exEnv 50]
  by (simp add: exElection_simps exC1_def Uint64_def)

section \<open>Election: members and backups\<close>

text \<open>
  C6.  \<open>drawn\<close> is the list the lottery returned (empty without candidates).  When it has
  more than \<^verbatim>\<open>MinimumCommitteeNumber\<close> entries the first \<^verbatim>\<open>MinimumCommitteeNumber\<close> are the
  elected members and the remainder the backups, otherwise all of it is elected.  With at
  least 4 elected members, the members are the elected ones with flag used and type
  worked, and the backups are the remainder with type back followed by the default
  (genesis) committee.  With fewer, the genesis committee itself is the member list.
\<close>

theorem electCommittee_split:
  assumes "electCommittee P E e snailBegin snailEnd = Inr c"
  shows "\<exists>drawn. drawnMembers P E e snailBegin snailEnd = Inr drawn \<and>
     (let n = MinimumCommitteeNumber P;
          elected = (if n < length drawn then take n drawn else drawn);
          rest = (if n < length drawn then drop n drawn else [])
      in (4 \<le> length elected \<longrightarrow>
            Members c = map (\<lambda>m. m\<lparr>Flag := StateUsedFlag, MType := TypeWorked\<rparr>) elected
            \<and> Backups c = map (\<lambda>m. m\<lparr>MType := TypeBack\<rparr>) rest @ defaultMembers e)
         \<and> (length elected < 4 \<longrightarrow>
            Members c = genesisCommittee e
            \<and> Backups c = map (\<lambda>m. m\<lparr>MType := TypeBack\<rparr>) rest))"
  using assms
  by (auto simp: electCommittee_def bindP_def splitCommittee_def Let_def split: sum.splits)

theorem electCommittee_split_witness:
  "electCommittee exParams exEnv exElection 1 3 = Inr exCommittee1
   \<and> drawnMembers exParams exEnv exElection 1 3 = Inr exDrawn
   \<and> Members exCommittee1
       = map (\<lambda>m. m\<lparr>Flag := StateUsedFlag, MType := TypeWorked\<rparr>) (take 4 exDrawn)
   \<and> Backups exCommittee1
       = map (\<lambda>m. m\<lparr>MType := TypeBack\<rparr>) (drop 4 exDrawn) @ defaultMembers exElection"
proof -
  have n: "MinimumCommitteeNumber exParams = 4" "length exDrawn = 6"
    by (simp_all add: exParams_def exDrawn_def)
  from electCommittee_split [OF ex_electCommittee] ex_drawn n ex_electCommittee
  show ?thesis by (simp add: Let_def)
qed

section \<open>Election: the election window\<close>

lemma big_Div_exact: "big_Div (k * y) y = Inr q \<Longrightarrow> q = k"
proof -
  assume a: "big_Div (k * y) y = Inr q"
  then have y: "y \<noteq> 0" by (auto simp: big_Div_def split: if_splits)
  have "k * y div - y = - k"
    using y by (metis div_minus_right minus_mult_left nonzero_mult_div_cancel_right)
  with a y show ?thesis by (auto simp: big_Div_def split: if_splits)
qed

lemma getElectionMembers_frame:
  "getElectionMembers P E e b en = Inr (ms, e') \<Longrightarrow>
     committee e' = committee e \<and> nextCommittee e' = nextCommittee e
     \<and> startSwitchover e' = startSwitchover e \<and> committeeStates e' = committeeStates e
     \<and> genesisCommittee e' = genesisCommittee e \<and> defaultMembers e' = defaultMembers e"
  by (auto simp: getElectionMembers_def bindP_def Let_def split: sum.splits option.splits)

lemma clampBegin_max: "clampBegin x = max 1 x"
  by (simp add: clampBegin_def max_def)

lemma getCommittee_window:
  assumes "getCommittee P E e fastNumber snailNumber = Inr (Some c, e')" and "1 \<le> id' c"
  shows "lastElectionNumber c = id' c * ElectionPeriodNumber P - SnailConfirmInterval P
       \<and> firstElectionNumber c = max 1 (lastElectionNumber c - ElectionPeriodNumber P + 1)
       \<and> switchCheckNumber c = (id' c + 1) * ElectionPeriodNumber P"
  using assms
  by (auto simp: getCommittee_def bindP_def Let_def genesisAt_def clampBegin_max algebra_simps
           split: sum.splits option.splits if_splits prod.splits)

lemma loopSnailEvent_other:
  assumes "committee e = Some cur" "number \<noteq> switchCheckNumber cur"
  shows "loopSnailEvent P E e number = Inr (e, [])"
  using assms by (simp add: loopSnailEvent_def)

lemma loopSnailEvent_next:
  assumes "committee e = Some cur" "number = switchCheckNumber cur" "nextCommittee e = None"
    and "switchCheckNumber cur = (id' cur + 1) * ElectionPeriodNumber P"
    and "loopSnailEvent P E e number = Inr (e', evs)"
  shows "map_option id' (nextCommittee e') = Some (id' cur + 1)
       \<and> map_option lastElectionNumber (nextCommittee e') = Some (number - SnailConfirmInterval P)
       \<and> map_option firstElectionNumber (nextCommittee e')
           = Some (max 1 (number - SnailConfirmInterval P - ElectionPeriodNumber P + 1))
       \<and> map_option switchCheckNumber (nextCommittee e') = Some (number + ElectionPeriodNumber P)"
  using assms
  by (auto simp: loopSnailEvent_def bindP_def Let_def max_def
           dest!: getElectionMembers_frame big_Div_exact
           split: sum.splits option.splits if_splits prod.splits)

lemma loopSnailEvent_elects:
  assumes "committee e = Some cur" "number = switchCheckNumber cur" "nextCommittee e = None"
    and "switchCheckNumber cur = (id' cur + 1) * ElectionPeriodNumber P"
    and "loopSnailEvent P E e number = Inr (e', evs)"
  shows "\<exists>nxt. nextCommittee e' = Some nxt \<and> id' nxt = id' cur + 1
       \<and> lastElectionNumber nxt = number - SnailConfirmInterval P
       \<and> firstElectionNumber nxt = max 1 (lastElectionNumber nxt - ElectionPeriodNumber P + 1)
       \<and> switchCheckNumber nxt = number + ElectionPeriodNumber P"
  using loopSnailEvent_next [OF assms] by (cases "nextCommittee e'") auto




section \<open>Election: replaying switch infos\<close>

lemma latestFlag_snoc:
  "latestFlag (vals @ [s]) pk =
     (if Pk s = pk \<and> (SFlag s = StateAppendFlag \<or> SFlag s = StateRemovedFlag)
      then Some (SFlag s) else latestFlag vals pk)"
  by (auto simp: latestFlag_def split: list.splits)

lemma fold_applySwitch:
  "fold applySwitch vals states pk =
     (case latestFlag vals pk of None \<Rightarrow> states pk | Some f \<Rightarrow> Some f)"
proof (induction vals rule: rev_induct)
  case Nil
  then show ?case by (simp add: latestFlag_def)
next
  case (snoc s vals)
  then show ?case
    by (cases "SFlag s") (auto simp: latestFlag_snoc applySwitch_def split: option.splits)
qed

lemma replayAll_fold:
  "\<forall>num\<in>set sw. fc num \<noteq> None \<Longrightarrow>
     replayAll fc sw states = Inr (fold applySwitch (concat (map (switchVals fc) sw)) states)"
  by (induction sw arbitrary: states) (auto simp: switchVals_def)

lemma replayBelow_fold:
  "sorted sw \<Longrightarrow> \<forall>num\<in>set sw. num < fastNumber \<longrightarrow> fc num \<noteq> None \<Longrightarrow>
     replayBelow fc fastNumber sw states = Inr (fold applySwitch (replayed fc fastNumber sw) states)"
proof (induction sw arbitrary: states)
  case Nil
  then show ?case by (simp add: replayed_def)
next
  case (Cons num nums)
  show ?case
  proof (cases "fastNumber \<le> num")
    case True
    with Cons.prems have "filter (\<lambda>n. n < fastNumber) (num # nums) = []"
      by (auto simp: filter_empty_conv)
    with True show ?thesis by (simp add: replayed_def)
  next
    case False
    with Cons.prems obtain b where b: "fc num = Some b" by auto
    from Cons.prems have "sorted nums" "\<forall>n\<in>set nums. n < fastNumber \<longrightarrow> fc n \<noteq> None" by auto
    moreover from False have "num < fastNumber" by (simp add: not_le)
    ultimately show ?thesis using Cons.IH [of "fold applySwitch (Vals (BSwitchInfos b)) states"] False b
      by (simp add: replayed_def switchVals_def)
  qed
qed

lemma replayed_all:
  "sorted sw \<Longrightarrow> sw \<noteq> [] \<Longrightarrow> last sw < fastNumber \<Longrightarrow> filter (\<lambda>num. num < fastNumber) sw = sw"
proof -
  assume a: "sorted sw" "sw \<noteq> []" "last sw < fastNumber"
  have "\<forall>n\<in>set sw. n \<le> last sw"
    using a(1,2) by (induction sw) (auto split: if_splits)
  with a(3) show ?thesis by (auto simp: filter_id_conv)
qed

lemma effectiveMembers_latest:
  "effectiveMembers c (fold applySwitch vals Map.empty) =
     filter (\<lambda>m. latestFlag vals (MPublickey m) \<noteq> Some StateRemovedFlag) (members c)
     @ filter (\<lambda>m. latestFlag vals (MPublickey m) = Some StateAppendFlag) (backupMembers c)"
proof -
  have 1: "(case fold applySwitch vals Map.empty pk of Some flag \<Rightarrow> flag \<noteq> StateRemovedFlag | None \<Rightarrow> True)
             = (latestFlag vals pk \<noteq> Some StateRemovedFlag)" for pk
    by (cases "latestFlag vals pk") (simp_all add: fold_applySwitch)
  have 2: "(case fold applySwitch vals Map.empty pk of Some flag \<Rightarrow> flag = StateAppendFlag | None \<Rightarrow> False)
             = (latestFlag vals pk = Some StateAppendFlag)" for pk
    by (cases "latestFlag vals pk") (simp_all add: fold_applySwitch)
  show ?thesis by (simp add: effectiveMembers_def 1 2)
qed


lemma ex_elected_switched:
  "electedCommittee exParams exEnv exSwitched 25
     = Inr (Some (exC1 \<lparr> switches := [20, 30] \<rparr>), exSwitched)"
  by (simp add: electedCommittee_def exSwitched_def exElection_def exC1_def)


section \<open>Election: determinism\<close>

lemma collectFruits_cong:
  "samePrimitives E1 E2 \<Longrightarrow> collectFruits E1 fs st = collectFruits E2 fs st"
proof (induction fs arbitrary: st)
  case Nil
  then show ?case by (cases st) simp
next
  case (Cons f fs)
  obtain mems fruitsCount where st: "st = (mems, fruitsCount)" by (cases st)
  from Cons.prems have p: "PubkeyToAddress E1 = PubkeyToAddress E2" "GetPubKey E1 = GetPubKey E2"
      "GetDifficulty E1 = GetDifficulty E2"
    by (simp_all add: samePrimitives_def)
  note ih = Cons.IH [OF Cons.prems]
  show ?case
    unfolding st by (simp add: p ih Let_def split: option.splits prod.splits)
qed

lemma collectBlocks_cong:
  "samePrimitives E1 E2 \<Longrightarrow> sameWindow E1 E2 b en \<Longrightarrow>
     collectBlocks E1 b en st = collectBlocks E2 b en st"
proof (induction E1 b en st rule: collectBlocks.induct)
  case (1 E blockNumber snailEndNumber seed st)
  show ?case
  proof (cases "blockNumber \<le> snailEndNumber")
    case False
    then show ?thesis by (simp add: collectBlocks.simps)
  next
    case True
    with "1.prems" have here: "snail E (Uint64 blockNumber) = snail E2 (Uint64 blockNumber)"
      by (simp add: sameWindow_def)
    from "1.prems" have rest: "sameWindow E E2 (blockNumber + 1) snailEndNumber"
      by (simp add: sameWindow_def)
    show ?thesis
    proof (cases "snail E (Uint64 blockNumber)")
      case None
      with True here show ?thesis
        by (simp add: collectBlocks.simps [of E] collectBlocks.simps [of E2])
    next
      case (Some block)
      with here have e2: "snail E2 (Uint64 blockNumber) = Some block" by simp
      from "1.prems"(1) have bh: "BlockHash E = BlockHash E2"
        by (simp add: samePrimitives_def)
      have cf: "collectFruits E (FruitsList block) st = collectFruits E2 (FruitsList block) st"
        using "1.prems"(1) by (rule collectFruits_cong)
      have "collectBlocks E blockNumber snailEndNumber (seed, st)
          = collectBlocks E (blockNumber + 1) snailEndNumber
              (seed @ hash_Bytes (BlockHash E (Header block)), collectFruits E (FruitsList block) st)"
        using True Some by (simp add: collectBlocks.simps [of E blockNumber])
      also have "\<dots> = collectBlocks E2 (blockNumber + 1) snailEndNumber
              (seed @ hash_Bytes (BlockHash E (Header block)), collectFruits E (FruitsList block) st)"
        by (rule "1.IH" [OF True Some "1.prems"(1) rest])
      also have "\<dots> = collectBlocks E2 blockNumber snailEndNumber (seed, st)"
        using True e2 by (simp add: collectBlocks.simps [of E2 blockNumber] bh cf)
      finally show ?thesis .
    qed
  qed
qed

lemma getCandinates_cong:
  "samePrimitives E1 E2 \<Longrightarrow> sameWindow E1 E2 b en \<Longrightarrow>
     getCandinates P E1 b en = getCandinates P E2 b en"
proof -
  assume p: "samePrimitives E1 E2" and w: "sameWindow E1 E2 b en"
  from p have k: "Keccak256Hash E1 = Keccak256Hash E2" by (simp add: samePrimitives_def)
  show ?thesis
    by (auto simp: getCandinates_def collectBlocks_cong [OF p w] k Let_def
             split: option.splits prod.splits)
qed

lemma electLoop_cong:
  "Keccak256Hash E1 = Keccak256Hash E2 \<Longrightarrow>
     electLoop P E1 defaults candidates seed rnd st = electLoop P E2 defaults candidates seed rnd st"
proof (induction P E1 defaults candidates seed rnd st rule: electLoop.induct)
  case (1 P E defaults candidates seed rnd st)
  show ?case
  proof (cases "MaximumCommitteeNumber P < rnd + 1")
    case True
    with "1.prems" show ?thesis
      by (simp add: electLoop.simps [of P E] electLoop.simps [of P E2] Let_def)
  next
    case False
    from "1.IH" [OF refl refl refl False "1.prems"] False "1.prems" show ?thesis
      by (simp add: electLoop.simps [of P E _ _ _ rnd] electLoop.simps [of P E2 _ _ _ rnd] Let_def)
  qed
qed

lemma elect_cong:
  "samePrimitives E1 E2 \<Longrightarrow> defaultMembers e1 = defaultMembers e2 \<Longrightarrow>
     elect P E1 e1 candidates seed = elect P E2 e2 candidates seed"
  by (simp add: elect_def samePrimitives_def electLoop_cong [of E1 E2])

text \<open>
  C8.  The elected committee is a function of the snail blocks of the window, of the
  primitives (block hash, keccak, key recovery, difficulty) and of the genesis committee:
  two runs that agree on these return the same members and backups, whatever the rest of
  the chains, the cache, the stored committees and the current committees are.
\<close>

theorem electCommittee_deterministic:
  assumes "samePrimitives E1 E2"
    and "sameWindow E1 E2 snailBeginNumber snailEndNumber"
    and "genesisCommittee e1 = genesisCommittee e2"
    and "defaultMembers e1 = defaultMembers e2"
  shows "electCommittee P E1 e1 snailBeginNumber snailEndNumber
       = electCommittee P E2 e2 snailBeginNumber snailEndNumber"
proof -
  have "drawnMembers P E1 e1 snailBeginNumber snailEndNumber
      = drawnMembers P E2 e2 snailBeginNumber snailEndNumber"
    using assms(1,2,4)
    by (auto simp: drawnMembers_def bindP_def getCandinates_cong [of E1 E2]
                   elect_cong [of E1 E2 e1 e2] split: sum.splits option.splits)
  moreover have "splitCommittee P e1 = splitCommittee P e2"
    using assms(3,4) by (simp add: splitCommittee_def fun_eq_iff Let_def)
  ultimately show ?thesis by (simp add: electCommittee_def)
qed

lemma ex_same_window: "sameWindow exEnv exEnv' 1 3"
proof -
  have "exChain (Uint64 n) = (exChain(7 := None)) (Uint64 n)" if "1 \<le> n" "n \<le> 3" for n
  proof -
    from that have "n = 1 \<or> n = 2 \<or> n = 3" by arith
    then show ?thesis by (auto simp: Uint64_def)
  qed
  then show ?thesis by (simp add: sameWindow_def exEnv'_def exEnv_def)
qed

theorem electCommittee_deterministic_witness:
  "electCommittee exParams exEnv exElection 1 3 = electCommittee exParams exEnv' exElection' 1 3
   \<and> snail exEnv 7 \<noteq> snail exEnv' 7
   \<and> commiteeCache exElection 1 \<noteq> commiteeCache exElection' 1"
  using electCommittee_deterministic [OF _ ex_same_window, of exElection exElection' exParams]
  by (simp add: samePrimitives_def exEnv'_def exEnv_def exElection'_def exElection_def
        exChain_def)


section \<open>Sealer: the seals of the mining loop\<close>

lemma mineAttempt_block:
  "mineAttempt S block hash target fruitTarget header nonce = Inr (FoundBlock sealed) \<Longrightarrow>
     Nonce (Header sealed) = nonce \<and> \<not> Fruit (Header sealed) \<and> Fruits block \<noteq> None
     \<and> SetBytes (take 16 (snd (truehashFull S hash nonce))) \<le> target"
  by (auto simp: mineAttempt_def WithSeal_def Let_def split: prod.splits if_splits)

lemma mineAttempt_fruit:
  "mineAttempt S block hash target fruitTarget header nonce = Inr (FoundFruit sealed header') \<Longrightarrow>
     Nonce (Header sealed) = nonce \<and> Fruit (Header sealed) \<and> Uint64 (FastNumber header) \<noteq> 0
     \<and> \<not> SetBytes (take 16 (snd (truehashFull S hash nonce))) \<le> target
     \<and> SetBytes (drop 16 (snd (truehashFull S hash nonce))) \<le> fruitTarget
     \<and> FastNumber header' = FastNumber header"
  by (auto simp: mineAttempt_def WithSeal_def Let_def split: prod.splits if_splits)

lemma mineLoop_sealed:
  "mineLoop S block hash target fruitTarget attempts header nonce = Inr seals \<Longrightarrow>
   sealed \<in> set seals \<Longrightarrow>
     (Fruit (Header sealed) \<longrightarrow>
        Uint64 (FastNumber header) \<noteq> 0
        \<and> \<not> SetBytes (take 16 (snd (truehashFull S hash (Nonce (Header sealed))))) \<le> target
        \<and> SetBytes (drop 16 (snd (truehashFull S hash (Nonce (Header sealed))))) \<le> fruitTarget)
     \<and> (\<not> Fruit (Header sealed) \<longrightarrow>
        Fruits block \<noteq> None
        \<and> SetBytes (take 16 (snd (truehashFull S hash (Nonce (Header sealed))))) \<le> target)"
proof (induction attempts arbitrary: header nonce seals)
  case 0
  then show ?case by simp
next
  case (Suc attempts)
  from Suc.prems(1) obtain a where a: "mineAttempt S block hash target fruitTarget header nonce = Inr a"
    by (auto simp: bindP_def split: sum.splits)
  show ?case
  proof (cases a)
    case Miss
    with a Suc.prems have "mineLoop S block hash target fruitTarget attempts header (nonce + 1) = Inr seals"
      by (simp add: bindP_def)
    from Suc.IH [OF this Suc.prems(2)] show ?thesis .
  next
    case (FoundBlock b)
    with a Suc.prems have "sealed = b" by (auto simp: bindP_def)
    with mineAttempt_block [of S block hash target fruitTarget header nonce b] a FoundBlock
    show ?thesis by auto
  next
    case (FoundFruit b header')
    with a Suc.prems(1) obtain more where
      more: "mineLoop S block hash target fruitTarget attempts header' (nonce + 1) = Inr more"
      and seals: "seals = b # more"
      by (auto simp: bindP_def split: sum.splits)
    from mineAttempt_fruit [of S block hash target fruitTarget header nonce b header'] a FoundFruit
    have f: "Nonce (Header b) = nonce" "Fruit (Header b)" "Uint64 (FastNumber header) \<noteq> 0"
      "\<not> SetBytes (take 16 (snd (truehashFull S hash nonce))) \<le> target"
      "SetBytes (drop 16 (snd (truehashFull S hash nonce))) \<le> fruitTarget"
      "FastNumber header' = FastNumber header"
      by auto
    show ?thesis
    proof (cases "sealed = b")
      case True
      with f show ?thesis by auto
    next
      case False
      with seals Suc.prems(2) have "sealed \<in> set more" by simp
      from Suc.IH [OF more this] f(6) show ?thesis by simp
    qed
  qed
qed

lemma big_Div_pos: "0 < y \<Longrightarrow> big_Div x y = Inr (x div y)"
  by (simp add: big_Div_def)

text \<open>
  C1.  For positive difficulties, every seal the mining loop offers carries the nonce it
  was found for and: if its is-fruit flag is false, the template has a fruit list and the
  high 128 bits of the result are at most \<open>2 ^ 128 div\<close> block difficulty; if the flag is
  true, the template's fast number is not zero, the high half missed the block target and
  the low 128 bits are at most \<open>2 ^ 128 div\<close> fruit difficulty.  So a template without a
  fruit list yields fruit seals only, and one with fast number zero block seals only.
\<close>

theorem mineSnail_seals:
  assumes "mineSnail S block seed attempts = Inr seals"
    and "sealed \<in> set seals"
    and "0 < Difficulty (Header block)" and "0 < FruitDifficulty (Header block)"
  shows "sealedAt S block sealed (Nonce (Header sealed))"
proof -
  from assms(1,3,4) have loop:
    "mineLoop S block (hash_Bytes (HashNoNonce S (Header block)))
       (2 ^ 128 div Difficulty (Header block)) (2 ^ 128 div FruitDifficulty (Header block))
       attempts (Header block) seed = Inr seals"
    by (simp add: mineSnail_def Let_def bindP_def big_Div_pos maxUint128_def)
  from mineLoop_sealed [OF loop assms(2)] show ?thesis
    unfolding sealedAt_def high128_def low128_def Let_def by blast
qed

lemma SetBytes_simps: "SetBytes [] = 0" "SetBytes (b # bs) = foldl (\<lambda>acc b. acc * 256 + uint b) (uint b) bs"
  by (simp_all add: SetBytes_def)

lemma ex_mine: "mineSnail exSealer exTemplate 0 1 = Inr [exSeal]"
  by (simp add: mineSnail_def mineAttempt_def exSealer_def exTemplate_def exSeal_def
        Let_def bindP_def big_Div_def maxUint128_def SetBytes_def BytesToHash_def h0_def Uint64_def)


theorem mineSnail_seals_witness:
  "sealedAt exSealer exTemplate exSeal 0
   \<and> mineSnail exSealer exTemplate 0 1 = Inr [exSeal] \<and> exSeal \<in> set [exSeal]
   \<and> 0 < Difficulty (Header exTemplate) \<and> 0 < FruitDifficulty (Header exTemplate)"
proof -
  have d: "0 < Difficulty (Header exTemplate)" "0 < FruitDifficulty (Header exTemplate)"
    by (simp_all add: exTemplate_def h0_def)
  have n: "Nonce (Header exSeal) = 0"
    by (simp add: exSeal_def WithSeal_def)
  have "exSeal \<in> set [exSeal]" by simp
  from mineSnail_seals [OF ex_mine this d] n ex_mine d show ?thesis by simp
qed

text \<open>
  A template that carries a fruit and has a non-zero fast number: the loop offers a seal
  whose is-fruit flag is true.
\<close>

theorem mineSnail_fruit_counterexample:
  "mineSnail exSealer exTemplate 0 1 = Inr [exSeal]
   \<and> Fruits exTemplate = Some [fruitAt 1]
   \<and> Fruit (Header exSeal)"
  using ex_mine by (simp add: exTemplate_def exSeal_def WithSeal_def)

section \<open>Fruit pool: admission\<close>

lemma appendFruit_full:
  "unat (FruitCount pool) \<le> length (allFruits pool) \<Longrightarrow>
     appendFruit pool fruit b = (Some ErrExceedNumber, pool)"
  by (simp add: appendFruit_def)

text \<open>
  C4.  Let fruit \<open>f\<close> pass the head check, refer to a known fast block that is not ahead of
  the fast head, validate, and let its fast hash index the pooled fruit \<open>g\<close>.  With a lower
  difficulty than \<open>g\<close>, or with the same difficulty and a block hash that is not lower,
  \<open>f\<close> is dropped and the pool is unchanged.  Otherwise \<open>f\<close> replaces \<open>g\<close> in all-fruits and
  is marked pending, provided the pool holds fewer fruits than its cap; in a pool at its
  cap \<^verbatim>\<open>ExceedNumber\<close> is returned and the pool is unchanged.
\<close>

theorem addFruit_conflict:
  assumes "passesHead env fruit" and "knownFast env fruit" and "ValidateFruit env fruit = None"
    and "map_of (allFruits pool) (FastHash (Header fruit)) = Some g"
  shows "(Difficulty (Header fruit) < Difficulty (Header g)
            \<longrightarrow> addFruit env pool fruit = Inr (None, pool))
       \<and> (Difficulty (Header fruit) = Difficulty (Header g)
            \<and> HashOf env (Header g) \<le> HashOf env (Header fruit)
            \<longrightarrow> addFruit env pool fruit = Inr (None, pool))
       \<and> (Difficulty (Header g) < Difficulty (Header fruit)
            \<or> Difficulty (Header fruit) = Difficulty (Header g)
               \<and> HashOf env (Header fruit) < HashOf env (Header g)
            \<longrightarrow> (length (allFruits pool) < unat (FruitCount pool) \<longrightarrow>
                   (\<exists>pool'. addFruit env pool fruit = Inr (None, pool')
                      \<and> map_of (allFruits pool')
                          = (map_of (allFruits pool))(FastHash (Header fruit) \<mapsto> fruit)
                      \<and> map_of (fruitPending pool')
                          = (map_of (fruitPending pool))(FastHash (Header fruit) \<mapsto> fruit)
                      \<and> FruitCount pool' = FruitCount pool))
                \<and> (unat (FruitCount pool) \<le> length (allFruits pool) \<longrightarrow>
                     addFruit env pool fruit = Inr (Some ErrExceedNumber, pool)))"
  using assms
  by (auto simp: addFruit_def passesHead_def knownFast_def appendFruit_def Let_def update_conv'
           not_less not_le)

lemma fruitAt_simps:
  "FastNumber (Header (fruitAt k)) = k" "FastHash (Header (fruitAt k)) = word_of_int k"
  "Difficulty (Header (fruitAt k)) = 3" "MixDigest (Header (fruitAt k)) = 0"
  "SignHash (Header (fruitAt k)) = 0" "Signs (fruitAt k) = []"
  by (simp_all add: fruitAt_def h0_def)

lemma ex_add5: "addFruit exPoolEnv (emptyPool 1) (fruitAt 5) = Inr (None, exFullPool)"
  by (simp add: addFruit_def appendFruit_def exPoolEnv_def emptyPool_def exFullPool_def
        exOldHead_def FruitsList_def Uint64_def fruitAt_simps Let_def)

theorem addFruit_conflict_witness:
  "map_sum id (\<lambda>(err, p). (err, map_of (allFruits p) 5, map_of (fruitPending p) 5))
     (addFruit exPoolEnv exRoomPool exBetter) = Inr (None, Some exBetter, Some exBetter)
   \<and> passesHead exPoolEnv exBetter \<and> knownFast exPoolEnv exBetter
   \<and> ValidateFruit exPoolEnv exBetter = None
   \<and> map_of (allFruits exRoomPool) (FastHash (Header exBetter)) = Some (fruitAt 5)"
proof -
  have h: "passesHead exPoolEnv exBetter" "knownFast exPoolEnv exBetter"
      "ValidateFruit exPoolEnv exBetter = None"
      "map_of (allFruits exRoomPool) (FastHash (Header exBetter)) = Some (fruitAt 5)"
    by (simp_all add: passesHead_def knownFast_def exPoolEnv_def exOldHead_def exBetter_def
          exRoomPool_def FruitsList_def Uint64_def fruitAt_simps)
  have k: "FastHash (Header exBetter) = 5" "Difficulty (Header (fruitAt 5)) < Difficulty (Header exBetter)"
      "length (allFruits exRoomPool) < unat (FruitCount exRoomPool)"
    by (simp_all add: exBetter_def exRoomPool_def fruitAt_simps)
  from addFruit_conflict [OF h] k obtain pool' where
    "addFruit exPoolEnv exRoomPool exBetter = Inr (None, pool')"
    "map_of (allFruits pool') = (map_of (allFruits exRoomPool))(5 \<mapsto> exBetter)"
    "map_of (fruitPending pool') = (map_of (fruitPending exRoomPool))(5 \<mapsto> exBetter)"
    by auto
  with h show ?thesis by simp
qed

text \<open>
  A pool at its cap that holds \<open>fruitAt 5\<close>: a valid fruit for the same fast block with a
  higher difficulty is refused and does not replace it.
\<close>

theorem addFruit_full_counterexample:
  "addFruit exPoolEnv exFullPool exBetter = Inr (Some ErrExceedNumber, exFullPool)
   \<and> map_of (allFruits exFullPool) (FastHash (Header exBetter)) = Some (fruitAt 5)
   \<and> Difficulty (Header (fruitAt 5)) < Difficulty (Header exBetter)
   \<and> ValidateFruit exPoolEnv exBetter = None"
  by (simp add: addFruit_def appendFruit_def exPoolEnv_def exFullPool_def exBetter_def
        exOldHead_def FruitsList_def Uint64_def fruitAt_simps Let_def)

section \<open>Fruit pool: batches\<close>

lemma addFruit_new:
  assumes "admitted env fruit" and "map_of (allFruits pool) (FastHash (Header fruit)) = None"
  shows "\<exists>b. addFruit env pool fruit = Inr (appendFruit pool fruit b)"
  using assms
  by (auto simp: addFruit_def admitted_def passesHead_def knownFast_def Let_def not_less not_le)

lemma length_update_new: "k \<notin> fst ` set al \<Longrightarrow> length (AList.update k v al) = Suc (length al)"
  by (induction al) auto

lemma appendFruit_room:
  assumes "length (allFruits pool) < unat (FruitCount pool)"
    and "FastHash (Header fruit) \<notin> fst ` set (allFruits pool)"
  shows "\<exists>pool'. appendFruit pool fruit b = (None, pool') \<and> FruitCount pool' = FruitCount pool
           \<and> length (allFruits pool') = Suc (length (allFruits pool))
           \<and> fst ` set (allFruits pool') = insert (FastHash (Header fruit)) (fst ` set (allFruits pool))"
  using assms
  by (auto simp: appendFruit_def length_update_new dom_update)

lemma loopFruits_unique:
  assumes "\<forall>f\<in>set fruits. admitted env f"
    and "distinct (map (\<lambda>f. FastHash (Header f)) fruits)"
    and "(\<lambda>f. FastHash (Header f)) ` set fruits \<inter> fst ` set (allFruits pool) = {}"
  shows "\<exists>dropped pool'. loopFruits env pool fruits = Inr (dropped, pool')
           \<and> FruitCount pool' = FruitCount pool
           \<and> length (allFruits pool')
               = length (allFruits pool)
                 + min (length fruits) (unat (FruitCount pool) - length (allFruits pool))
           \<and> dropped
               = replicate (min (length fruits) (unat (FruitCount pool) - length (allFruits pool))) None
                 @ replicate (length fruits - (unat (FruitCount pool) - length (allFruits pool)))
                     (Some ErrExceedNumber)
           \<and> fst ` set (allFruits pool')
               \<subseteq> fst ` set (allFruits pool) \<union> (\<lambda>f. FastHash (Header f)) ` set fruits"
  using assms
proof (induction fruits arbitrary: pool)
  case Nil
  then show ?case by simp
next
  case (Cons f fruits)
  from Cons.prems(3) have new: "FastHash (Header f) \<notin> fst ` set (allFruits pool)" by auto
  then have "map_of (allFruits pool) (FastHash (Header f)) = None"
    by (simp add: map_of_eq_None_iff)
  with Cons.prems(1) obtain b where add: "addFruit env pool f = Inr (appendFruit pool f b)"
    using addFruit_new [of env f pool] by auto
  from Cons.prems have rest: "\<forall>f\<in>set fruits. admitted env f"
      "distinct (map (\<lambda>f. FastHash (Header f)) fruits)"
    by auto
  show ?case
  proof (cases "unat (FruitCount pool) \<le> length (allFruits pool)")
    case True
    from Cons.prems(3) have disj: "(\<lambda>f. FastHash (Header f)) ` set fruits \<inter> fst ` set (allFruits pool) = {}"
      by auto
    from Cons.IH [OF rest disj] obtain dropped pool' where
      ih: "loopFruits env pool fruits = Inr (dropped, pool')" "FruitCount pool' = FruitCount pool"
        "length (allFruits pool') = length (allFruits pool)
           + min (length fruits) (unat (FruitCount pool) - length (allFruits pool))"
        "dropped = replicate (min (length fruits) (unat (FruitCount pool) - length (allFruits pool))) None
           @ replicate (length fruits - (unat (FruitCount pool) - length (allFruits pool)))
               (Some ErrExceedNumber)"
        "fst ` set (allFruits pool') \<subseteq> fst ` set (allFruits pool) \<union> (\<lambda>f. FastHash (Header f)) ` set fruits"
      by blast
    from True ih add show ?thesis
      by (auto simp: bindP_def appendFruit_full)
  next
    case False
    then have room: "length (allFruits pool) < unat (FruitCount pool)" by simp
    from appendFruit_room [OF room new, of b] obtain pool1 where
      p1: "appendFruit pool f b = (None, pool1)" "FruitCount pool1 = FruitCount pool"
        "length (allFruits pool1) = Suc (length (allFruits pool))"
        "fst ` set (allFruits pool1) = insert (FastHash (Header f)) (fst ` set (allFruits pool))"
      by blast
    from Cons.prems(2,3) p1(4)
    have disj: "(\<lambda>f. FastHash (Header f)) ` set fruits \<inter> fst ` set (allFruits pool1) = {}"
      by auto
    from Cons.IH [OF rest disj] obtain dropped pool' where
      ih: "loopFruits env pool1 fruits = Inr (dropped, pool')" "FruitCount pool' = FruitCount pool1"
        "length (allFruits pool') = length (allFruits pool1)
           + min (length fruits) (unat (FruitCount pool1) - length (allFruits pool1))"
        "dropped = replicate (min (length fruits) (unat (FruitCount pool1) - length (allFruits pool1))) None
           @ replicate (length fruits - (unat (FruitCount pool1) - length (allFruits pool1)))
               (Some ErrExceedNumber)"
        "fst ` set (allFruits pool') \<subseteq> fst ` set (allFruits pool1) \<union> (\<lambda>f. FastHash (Header f)) ` set fruits"
      by blast
    obtain d where d: "unat (FruitCount pool) - length (allFruits pool) = Suc d"
      using room by (metis Suc_diff_Suc)
    then have d': "unat (FruitCount pool) - Suc (length (allFruits pool)) = d" by simp
    have "loopFruits env pool (f # fruits) = Inr (None # dropped, pool')"
      using add p1(1) ih(1) by (simp add: bindP_def)
    moreover have "length (allFruits pool') = length (allFruits pool)
        + min (length (f # fruits)) (unat (FruitCount pool) - length (allFruits pool))"
      using ih(3) p1(2,3) d d' by simp
    moreover have "None # dropped
        = replicate (min (length (f # fruits)) (unat (FruitCount pool) - length (allFruits pool))) None
          @ replicate (length (f # fruits) - (unat (FruitCount pool) - length (allFruits pool)))
              (Some ErrExceedNumber)"
      using ih(4) p1(2,3) d d' by simp
    moreover have "fst ` set (allFruits pool')
        \<subseteq> fst ` set (allFruits pool) \<union> (\<lambda>f. FastHash (Header f)) ` set (f # fruits)"
      using ih(5) p1(4) by auto
    ultimately show ?thesis using ih(2) p1(2) by simp
  qed
qed


lemma map_const_replicate: "\<forall>x\<in>set xs. f x = c \<Longrightarrow> map f xs = replicate (length xs) c"
  by (induction xs) auto

text \<open>
  C3.  The error slice of \<^verbatim>\<open>AddRemoteFruits\<close> is as long as the batch, and its entry for a
  fruit is \<^verbatim>\<open>InvalidSign\<close> when the sign hash of the fruit is wrong and \<^verbatim>\<open>nil\<close> otherwise;
  what the admission in the pool's loop returns is dropped there.  For a batch of valid
  fruits with distinct fast hashes that all reach the insertion, sent to an empty pool:
  every entry of the slice is \<^verbatim>\<open>nil\<close>, the pool retains as many fruits as its cap allows,
  and the admissions of the fruits beyond the cap returned \<^verbatim>\<open>ExceedNumber\<close> to the loop.
\<close>

theorem AddRemoteFruits_errors:
  "length (fst (AddRemoteFruits env fruits)) = length fruits
   \<and> (\<forall>i<length fruits.
         fst (AddRemoteFruits env fruits) ! i
           = (if SignHash (Header (fruits ! i)) \<noteq> CalcSignHash env (Signs (fruits ! i))
              then Some ErrInvalidSign else None))
   \<and> ((\<forall>f\<in>set fruits. validateFruit env f = None \<and> admitted env f)
        \<and> distinct (map (\<lambda>f. FastHash (Header f)) fruits) \<and> allFruits pool = []
       \<longrightarrow> (\<exists>pool'. remoteBatch env pool fruits
                      = Inr (replicate (length fruits) None,
                             replicate (min (length fruits) (unat (FruitCount pool))) None
                             @ replicate (length fruits - unat (FruitCount pool))
                                 (Some ErrExceedNumber),
                             pool')
                  \<and> length (allFruits pool') = min (length fruits) (unat (FruitCount pool))))"
proof (intro conjI impI)
  show "length (fst (AddRemoteFruits env fruits)) = length fruits"
    by (simp add: AddRemoteFruits_def)
  show "\<forall>i<length fruits.
         fst (AddRemoteFruits env fruits) ! i
           = (if SignHash (Header (fruits ! i)) \<noteq> CalcSignHash env (Signs (fruits ! i))
              then Some ErrInvalidSign else None)"
    by (simp add: AddRemoteFruits_def validateFruit_def)
next
  assume a: "(\<forall>f\<in>set fruits. validateFruit env f = None \<and> admitted env f)
        \<and> distinct (map (\<lambda>f. FastHash (Header f)) fruits) \<and> allFruits pool = []"
  then have sent: "AddRemoteFruits env fruits = (replicate (length fruits) None, fruits)"
    by (simp add: AddRemoteFruits_def map_const_replicate)
  from a have "\<forall>f\<in>set fruits. admitted env f"
    and "distinct (map (\<lambda>f. FastHash (Header f)) fruits)"
    and "(\<lambda>f. FastHash (Header f)) ` set fruits \<inter> fst ` set (allFruits pool) = {}"
    by simp_all
  from loopFruits_unique [OF this] a sent
  show "\<exists>pool'. remoteBatch env pool fruits
                      = Inr (replicate (length fruits) None,
                             replicate (min (length fruits) (unat (FruitCount pool))) None
                             @ replicate (length fruits - unat (FruitCount pool))
                                 (Some ErrExceedNumber),
                             pool')
                  \<and> length (allFruits pool') = min (length fruits) (unat (FruitCount pool))"
    by (auto simp: remoteBatch_def bindP_def)
qed

lemma exBatch_length: "length (exBatch n) = n"
  by (simp add: exBatch_def)

lemma exBatch_distinct:
  assumes "n < 2 ^ 256"
  shows "distinct (map (\<lambda>f. FastHash (Header f)) (exBatch n))"
proof -
  have "inj_on (\<lambda>k. (word_of_int (int k) :: 256 word)) (set [1..<Suc n])"
  proof (rule inj_onI)
    fix x y assume "x \<in> set [1..<Suc n]" "y \<in> set [1..<Suc n]"
      and eq: "(word_of_int (int x) :: 256 word) = word_of_int (int y)"
    then have "x < 2 ^ 256" "y < 2 ^ 256" using assms by auto
    with eq show "x = y"
      by (simp add: word_of_nat_eq_iff take_bit_nat_eq_self)
  qed
  then show ?thesis
    by (simp add: exBatch_def comp_def fruitAt_simps distinct_map del: upt_Suc)
qed

lemma exBatch_admitted:
  "\<forall>f\<in>set (exBatch n). validateFruit exGenesisEnv f = None \<and> admitted exGenesisEnv f"
  by (auto simp: exBatch_def validateFruit_def admitted_def passesHead_def exGenesisEnv_def
        exPoolEnv_def exGenesis_def fruitAt_simps Uint64_def h0_def simp del: upt_Suc)

theorem AddRemoteFruits_errors_witness:
  "map_sum id (\<lambda>(errs, dropped, pool').
       (errs = replicate 9000 None, drop 8192 dropped = replicate 808 (Some ErrExceedNumber),
        length (allFruits pool')))
     (remoteBatch exGenesisEnv (emptyPool 8192) (exBatch 9000)) = Inr (True, True, 8192)"
proof -
  have d: "distinct (map (\<lambda>f. FastHash (Header f)) (exBatch 9000))"
    by (rule exBatch_distinct) simp
  from AddRemoteFruits_errors [of exGenesisEnv "exBatch 9000" "emptyPool 8192"]
       exBatch_admitted [of 9000] d
  obtain pool' where
    "remoteBatch exGenesisEnv (emptyPool 8192) (exBatch 9000)
       = Inr (replicate 9000 None,
              replicate 8192 None @ replicate 808 (Some ErrExceedNumber), pool')"
    "length (allFruits pool') = 8192"
    by (auto simp: emptyPool_def exBatch_length)
  then show ?thesis by simp
qed


text \<open>
  Two valid fruits sent to an empty pool of cap 1: the second is refused with
  \<^verbatim>\<open>ExceedNumber\<close> in the loop, and both entries of the error slice are \<^verbatim>\<open>nil\<close>.
\<close>

theorem AddRemoteFruits_counterexample:
  "remoteBatch exPoolEnv (emptyPool 1) [fruitAt 11, fruitAt 12]
     = Inr ([None, None], [None, Some ErrExceedNumber],
            \<lparr> FruitCount = 1, allFruits = [(11, fruitAt 11)], fruitPending = [] \<rparr>)"
  by (simp add: remoteBatch_def AddRemoteFruits_def validateFruit_def addFruit_def appendFruit_def
        exPoolEnv_def emptyPool_def exOldHead_def FruitsList_def Uint64_def fruitAt_simps
        Let_def bindP_def)

section \<open>Fruit pool: the invariants\<close>

text \<open>The keys of the pending map are keys of all-fruits in every state of the pool.\<close>

lemma keys_delete: "fst ` set (AList.delete k al) = fst ` set al - {k}"
proof -
  have "set (map fst (AList.delete k al)) = set (map fst al) - {k}"
    by (simp add: delete_keys)
  then show ?thesis by simp
qed

lemma fold_preserves:
  "(\<And>x p. P p \<Longrightarrow> P (f x p)) \<Longrightarrow> P p \<Longrightarrow> P (fold f xs p)"
  by (induction xs arbitrary: p) auto

lemma appendFruit_pending:
  assumes "pendingWithinAll pool" and "appendFruit pool fruit b = (err, pool')"
  shows "pendingWithinAll pool'"
proof (cases "unat (FruitCount pool) \<le> length (allFruits pool)")
  case True
  with assms show ?thesis by (simp add: appendFruit_def)
next
  case False
  with assms(2) have
    all: "allFruits pool' = AList.update (FastHash (Header fruit)) fruit (allFruits pool)"
    and pen: "fruitPending pool' = (if b then AList.update (FastHash (Header fruit)) fruit (fruitPending pool)
                                   else fruitPending pool)"
    by (auto simp: appendFruit_def)
  have "fst ` set (allFruits pool') = {FastHash (Header fruit)} \<union> fst ` set (allFruits pool)"
    by (simp add: all dom_update)
  moreover have "fst ` set (fruitPending pool')
      \<subseteq> {FastHash (Header fruit)} \<union> fst ` set (fruitPending pool)"
    by (cases b) (auto simp: pen dom_update)
  ultimately show ?thesis using assms(1) unfolding pendingWithinAll_def by blast
qed

lemma addFruit_cases:
  assumes "addFruit env pool fruit = Inr (err, pool')"
  shows "pool' = pool \<or> (\<exists>b. appendFruit pool fruit b = (err, pool'))"
proof -
  have "addFruit env pool fruit = Inl IndexOutOfRange
      \<or> (\<exists>e. addFruit env pool fruit = Inr (e, pool))
      \<or> (\<exists>b. addFruit env pool fruit = Inr (appendFruit pool fruit b))"
    unfolding addFruit_def Let_def
    by (simp split: option.split) blast
  with assms show ?thesis by auto
qed

lemma addFruit_pending:
  "pendingWithinAll pool \<Longrightarrow> addFruit env pool fruit = Inr (err, pool') \<Longrightarrow> pendingWithinAll pool'"
  using addFruit_cases [of env pool fruit err pool'] appendFruit_pending [of pool fruit _ err pool']
  by blast


lemma deleteFruit_pending: "pendingWithinAll pool \<Longrightarrow> pendingWithinAll (deleteFruit k pool)"
  by (auto simp: deleteFruit_def pendingWithinAll_def keys_delete)

lemma insertRestFruits_pending:
  "pendingWithinAll pool \<Longrightarrow> pendingWithinAll (insertRestFruits pool fruits)"
  unfolding insertRestFruits_def
proof (rule fold_preserves [where P = pendingWithinAll])
  fix fruit p
  assume "pendingWithinAll p"
  then show "pendingWithinAll
      (p \<lparr> allFruits := AList.update (FastHash (Header fruit)) fruit (allFruits p),
           fruitPending := AList.update (FastHash (Header fruit)) fruit (fruitPending p) \<rparr>)"
    unfolding pendingWithinAll_def by (simp add: dom_update) blast
qed

lemma removeWithLock_pending:
  assumes "pendingWithinAll pool"
  shows "pendingWithinAll (removeWithLock pool fruits)"
proof (cases "fruits = []")
  case True
  with assms show ?thesis by (simp add: removeWithLock_def)
next
  case False
  have "pendingWithinAll
      (fold (\<lambda>(k, fruit) p.
               if FastNumber (Header fruit) \<le> FastNumber (Header (last fruits))
               then deleteFruit (FastHash (Header fruit)) p else p) (allFruits pool) pool)"
  proof (rule fold_preserves [where P = pendingWithinAll])
    fix x :: "hash \<times> SnailBlock" and p
    assume "pendingWithinAll p"
    then show "pendingWithinAll
        ((\<lambda>(k, fruit) p.
            if FastNumber (Header fruit) \<le> FastNumber (Header (last fruits))
            then deleteFruit (FastHash (Header fruit)) p else p) x p)"
      by (cases x) (simp add: deleteFruit_pending)
  qed (rule assms)
  with False show ?thesis by (simp add: removeWithLock_def)
qed

lemma removeUnfreshFruit_pending:
  assumes "pendingWithinAll pool"
  shows "pendingWithinAll (removeUnfreshFruit env pool)"
  unfolding removeUnfreshFruit_def
proof (rule fold_preserves [where P = pendingWithinAll])
  fix x :: "hash \<times> SnailBlock" and p
  assume "pendingWithinAll p"
  then show "pendingWithinAll
      ((\<lambda>(k, fruit) p.
          case VerifyFreshness env (Header fruit) of
            Some err \<Rightarrow>
              if err \<noteq> ErrSnailHeightNotYet then deleteFruit (FastHash (Header fruit)) p else p
          | None \<Rightarrow> p) x p)"
    by (cases x) (simp add: deleteFruit_pending split: option.splits)
qed (rule assms)

lemma reset_pending:
  assumes "pendingWithinAll pool" and "reset env fuel pool oldHead newHead = Some pool'"
  shows "pendingWithinAll pool'"
proof -
  have fin: "pendingWithinAll (removeUnfreshFruit env (removeWithLock p (FruitsList newHead)))"
    if "pendingWithinAll p" for p
    using that by (simp add: removeUnfreshFruit_pending removeWithLock_pending)
  show ?thesis
  proof (cases oldHead)
    case None
    with assms fin show ?thesis by (auto simp: reset_def)
  next
    case (Some old)
    show ?thesis
    proof (cases "reorgFruits env fuel old newHead")
      case OutOfFuel
      with assms Some fin show ?thesis
        by (auto simp: reset_def split: if_splits)
    next
      case Unrooted
      with assms Some fin show ?thesis
        by (auto simp: reset_def split: if_splits)
    next
      case (Walked reinject)
      with assms Some fin [of pool] fin [of "insertRestFruits pool reinject"]
           insertRestFruits_pending [of pool reinject]
      show ?thesis
        by (auto simp: reset_def split: if_splits)
    qed
  qed
qed

lemma reachable_pending: "pool \<in> reachable cap \<Longrightarrow> pendingWithinAll pool"
proof (induction rule: reachable.induct)
  case init
  then show ?case by (simp add: pendingWithinAll_def emptyPool_def)
next
  case (add pool env fruit err pool')
  then show ?case using addFruit_pending by blast
next
  case (reinject pool fruits)
  then show ?case by (simp add: insertRestFruits_pending)
next
  case (reset pool env fuel oldHead newHead pool')
  then show ?case using reset_pending by blast
next
  case (remove pool fasthash)
  then show ?case by (simp add: RemovePendingFruitByFastHash_def deleteFruit_pending)
qed

lemma length_update_le: "length (AList.update k v al) \<le> Suc (length al)"
  by (induction al) auto

lemma appendFruit_within_cap:
  "withinCap pool \<Longrightarrow> appendFruit pool fruit b = (err, pool') \<Longrightarrow> withinCap pool'"
  using length_update_le [of "FastHash (Header fruit)" fruit "allFruits pool"]
  by (auto simp: appendFruit_def withinCap_def split: if_splits)

lemma addFruit_within_cap:
  "withinCap pool \<Longrightarrow> addFruit env pool fruit = Inr (err, pool') \<Longrightarrow> withinCap pool'"
  using addFruit_cases [of env pool fruit err pool'] appendFruit_within_cap [of pool fruit _ err pool']
  by blast


lemma ex_reorg:
  "reorgFruits exPoolEnv (Suc (Suc 0)) exOldHead exNewHead
     = Walked [fruitAt 1, fruitAt 2, fruitAt 3]"
  by (simp add: reorgFruits_def NumberU64_def Uint64_def exOldHead_def exNewHead_def
        exPoolEnv_def exGenesis_def FruitsList_def fruitsDifference_def fruitAt_simps h0_def)

lemma ex_reset:
  "reset exPoolEnv (Suc (Suc 0)) exFullPool (Some exOldHead) exNewHead = Some exOverPool"
  by (simp add: reset_def ex_reorg)
     (simp add: exPoolEnv_def exOldHead_def exNewHead_def NumberU64_def Uint64_def h0_def
        insertRestFruits_def removeWithLock_def removeUnfreshFruit_def deleteFruit_def
        exFullPool_def exOverPool_def FruitsList_def fruitAt_simps)

text \<open>
  C2.  The specification has two invariants for every reachable state of the pool: the
  pending keys are keys of all-fruits, and all-fruits holds at most fruit-count-cap
  entries.  The first is \<open>reachable_pending\<close>; \<^verbatim>\<open>addFruit\<close> keeps the second
  (\<open>addFruit_within_cap\<close>), the re-injection of a reset does not.  The pool of cap 1
  that holds fruit 5 after one addition is reset from the old head to the new head of
  the example; the fruits 1 to 3 of the discarded block are re-injected without a look
  at the cap, and after the removals of the reset the pool, a reachable state, holds the
  three fruits 5, 2 and 3.
\<close>

theorem reset_exceeds_cap:
  "addFruit exPoolEnv (emptyPool 1) (fruitAt 5) = Inr (None, exFullPool)
   \<and> reset exPoolEnv (Suc (Suc 0)) exFullPool (Some exOldHead) exNewHead = Some exOverPool
   \<and> exOverPool \<in> reachable 1
   \<and> length (allFruits exOverPool) = 3 \<and> unat (FruitCount exOverPool) = 1
   \<and> \<not> withinCap exOverPool"
proof -
  have "exFullPool \<in> reachable 1"
    using reachable.add [OF reachable.init ex_add5] .
  then have "exOverPool \<in> reachable 1"
    using ex_reset by (rule reachable.reset)
  then show ?thesis
    using ex_add5 ex_reset by (simp add: exOverPool_def withinCap_def)
qed

end
